theory Spec2Isabelle
  imports Main
begin

section \<open>Strings\<close>

text \<open>
  A Python \<^verbatim>\<open>str\<close> is a sequence of Unicode code points, and every width in tex2utf is a
  count of code points (\<^verbatim>\<open>len(s)\<close>).  The box-drawing and bracket glyphs lie outside ASCII,
  so a string is modelled as the list of its code points.
\<close>

type_synonym ustring = "nat list"

abbreviation SP :: nat where "SP \<equiv> 32"
abbreviation NL :: nat where "NL \<equiv> 10"

text \<open>ASCII literals are written as HOL strings and converted with \<open>ustr\<close>.\<close>

definition ustr :: "string \<Rightarrow> ustring" where
  "ustr s = map of_char s"

text \<open>\<^verbatim>\<open>" " * n\<close>: a negative count gives the empty string.\<close>

definition spaces_of :: "int \<Rightarrow> ustring" where
  "spaces_of n = replicate (nat n) SP"

text \<open>\<^verbatim>\<open>s.ljust(n)\<close>: pads on the right, never truncates.\<close>

definition ljust :: "nat \<Rightarrow> ustring \<Rightarrow> ustring" where
  "ljust n s = s @ replicate (n - length s) SP"

text \<open>\<^verbatim>\<open>s.split("\n")\<close>: always returns at least one piece.\<close>

fun split_nl :: "ustring \<Rightarrow> ustring list" where
  "split_nl [] = [[]]"
| "split_nl (c # cs) =
     (if c = NL then [] # split_nl cs
      else (c # hd (split_nl cs)) # tl (split_nl cs))"

text \<open>\<^verbatim>\<open>"\n".join(xs)\<close>.\<close>

fun join_nl :: "ustring list \<Rightarrow> ustring" where
  "join_nl [] = []"
| "join_nl [x] = x"
| "join_nl (x # y # ys) = x @ NL # join_nl (y # ys)"

text \<open>\<^verbatim>\<open>while len(lines) < h: lines.append("")\<close>.\<close>

definition pad_lines :: "nat \<Rightarrow> ustring list \<Rightarrow> ustring list" where
  "pad_lines n ls = ls @ replicate (n - length ls) []"

text \<open>
  The characters that \<^verbatim>\<open>str.lstrip()\<close> and \<^verbatim>\<open>str.rstrip()\<close> remove
  (\<^verbatim>\<open>str.isspace\<close>).
\<close>

definition is_space :: "nat \<Rightarrow> bool" where
  "is_space c \<longleftrightarrow>
     (9 \<le> c \<and> c \<le> 13) \<or> (28 \<le> c \<and> c \<le> 32) \<or> c = 133 \<or> c = 160 \<or> c = 5760 \<or>
     (8192 \<le> c \<and> c \<le> 8202) \<or> c = 8232 \<or> c = 8233 \<or> c = 8239 \<or> c = 8287 \<or> c = 12288"

definition lstrip :: "ustring \<Rightarrow> ustring" where
  "lstrip s = dropWhile is_space s"

definition rstrip :: "ustring \<Rightarrow> ustring" where
  "rstrip s = rev (dropWhile is_space (rev s))"

section \<open>Records (records.py)\<close>

text \<open>
  A record is the string \<^verbatim>\<open>"height,length,baseline,spaces,content"\<close>.  Every function
  starts by splitting it at the first four commas and reading the four numbers, so the
  model is the parsed value.  The four numbers are runs of decimal digits (the accessors
  match them with \<^verbatim>\<open>\d+\<close>), hence natural numbers; arithmetic that can go below zero
  in the source is carried out over \<open>int\<close>.
\<close>

record texrec =
  height :: nat
  len :: nat
  baseline :: nat
  spaces :: nat
  content :: ustring

definition empty :: texrec where
  "empty = \<lparr>height = 0, len = 0, baseline = 0, spaces = 0, content = []\<rparr>"

definition string2record :: "ustring \<Rightarrow> bool \<Rightarrow> texrec" where
  "string2record s no_expand =
     (if no_expand
      then \<lparr>height = 1, len = length s, baseline = 0, spaces = 0, content = s\<rparr>
      else \<lparr>height = 0, len = length s, baseline = 0,
             spaces = (if s \<noteq> [] then count_list s SP else 0), content = s\<rparr>)"

definition get_length :: "texrec \<Rightarrow> nat" where
  "get_length r = len r"

definition get_height :: "texrec \<Rightarrow> nat" where
  "get_height r = (if height r > 0 then height r else 1)"

definition setbaseline :: "texrec \<Rightarrow> nat \<Rightarrow> texrec" where
  "setbaseline r new_b = r\<lparr>baseline := new_b\<rparr>"

definition record_forcelength :: "texrec \<Rightarrow> nat \<Rightarrow> texrec" where
  "record_forcelength r new_len = r\<lparr>len := new_len\<rparr>"

text \<open>
  \<^verbatim>\<open>cut(length, rec)\<close>.  The cut position becomes the width field of the left part, so
  it is a natural number; \<^verbatim>\<open>l2 = l - length\<close> is computed over \<open>int\<close>.
  \<open>cut_lines\<close> is the list \<^verbatim>\<open>lines\<close> of the branch \<^verbatim>\<open>if h:\<close>.
\<close>

definition cut_lines :: "nat \<Rightarrow> ustring \<Rightarrow> ustring list" where
  "cut_lines h s = pad_lines h (if s \<noteq> [] then split_nl s else replicate h [])"

definition cut :: "nat \<Rightarrow> texrec \<Rightarrow> texrec \<times> texrec" where
  "cut n r =
     (let h = height r; l = len r; b = baseline r; s = content r;
          l2 = int l - int n
      in if l2 < 0 then (r, empty)
         else
           (let (st1, st2) =
                  (if h \<noteq> 0
                   then (join_nl (map (take n) (cut_lines h s)),
                         join_nl (map (drop n) (cut_lines h s)))
                   else (take n s, drop n s))
            in (\<lparr>height = h, len = n, baseline = b, spaces = 0, content = st1\<rparr>,
                \<lparr>height = h, len = nat l2, baseline = b, spaces = 0, content = st2\<rparr>)))"

text \<open>\<^verbatim>\<open>vStack(rec1, rec2)\<close>: \<open>rec1\<close> on top of \<open>rec2\<close>.\<close>

definition vStack :: "texrec \<Rightarrow> texrec \<Rightarrow> texrec" where
  "vStack rec1 rec2 =
     (let h1 = (if height rec1 = 0 then 1 else height rec1);
          h2 = (if height rec2 = 0 then 1 else height rec2);
          str1 = content rec1; str2 = content rec2;
          lines1 = pad_lines h1 (if str1 \<noteq> [] then split_nl str1 else [[]]);
          lines2 = pad_lines h2 (if str2 \<noteq> [] then split_nl str2 else [[]])
      in \<lparr>height = h1 + h2, len = max (len rec1) (len rec2), baseline = h1 - 1,
          spaces = 0, content = join_nl (lines1 @ lines2)\<rparr>)"

text \<open>
  \<^verbatim>\<open>center(length, rec)\<close>.  The target width is an \<^verbatim>\<open>int\<close>; it is written to the
  width field only when it exceeds the record's width, hence when it is positive.
\<close>

definition center :: "int \<Rightarrow> texrec \<Rightarrow> texrec" where
  "center n r =
     (let h1 = (if height r = 0 then 1 else height r);
          str1 = content r;
          left = n - int (len r)
      in if left \<le> 0 then r
         else
           (let left_pad = left div 2;
                lines = pad_lines h1 (if str1 \<noteq> [] then split_nl str1 else [[]])
            in \<lparr>height = h1, len = nat n, baseline = baseline r, spaces = 0,
                content = join_nl (map (\<lambda>line. ljust (nat n) (spaces_of left_pad @ line)) lines)\<rparr>))"

definition vputs :: "ustring \<Rightarrow> nat \<Rightarrow> texrec" where
  "vputs s bl =
     (if length s = 0 then empty
      else \<lparr>height = length s, len = 1, baseline = bl, spaces = 0,
            content = join_nl (map (\<lambda>c. [c]) s)\<rparr>)"

section \<open>Angle brackets (brackets.py)\<close>

abbreviation LANGLE :: nat where "LANGLE \<equiv> 10216"
abbreviation RANGLE :: nat where "RANGLE \<equiv> 10217"
abbreviation SOL :: nat where "SOL \<equiv> 10744"
abbreviation RSOL :: nat where "RSOL \<equiv> 10745"
abbreviation LT :: nat where "LT \<equiv> 60"
abbreviation GT :: nat where "GT \<equiv> 62"

text \<open>\<^verbatim>\<open>max(len(line) for line in result_lines)\<close> over a list of lengths.\<close>

definition max_len :: "ustring list \<Rightarrow> nat" where
  "max_len ls = fold max (map length ls) 0"

text \<open>
  The body of the loop \<^verbatim>\<open>for row in range(h)\<close> of \<^verbatim>\<open>regenerate_angle_bracket\<close>:
  the line built for one row.  \<open>bracket_type\<close> is the character \<^verbatim>\<open>"<"\<close> or anything
  else (the source's \<^verbatim>\<open>else\<close> branch draws the right bracket).
\<close>

definition angle_row :: "nat \<Rightarrow> int \<Rightarrow> nat \<Rightarrow> nat \<Rightarrow> ustring" where
  "angle_row bracket_type width b row =
     (let dist_from_baseline = \<bar>int row - int b\<bar>
      in if bracket_type = LT
         then spaces_of dist_from_baseline @
                [if row < b then SOL else if row = b then LANGLE else RSOL]
         else spaces_of (width - 1 - dist_from_baseline) @
                [if row < b then RSOL else if row = b then RANGLE else SOL])"

definition regenerate_angle_bracket :: "nat \<Rightarrow> nat \<Rightarrow> nat \<Rightarrow> ustring list \<times> nat" where
  "regenerate_angle_bracket bracket_type h b =
     (let max_dist = max (int b) (int h - int b - 1);
          width = max_dist + 1;
          result_lines = map (angle_row bracket_type width b) [0..<h];
          max_w = (if result_lines \<noteq> [] then max_len result_lines else 1)
      in (map (ljust max_w) result_lines, max_w))"

text \<open>The distance \<open>|row - b|\<close> between a row and the baseline row.\<close>

definition row_dist :: "nat \<Rightarrow> nat \<Rightarrow> nat" where
  "row_dist r b = (if r < b then b - r else r - b)"

section \<open>Horizontal join (join.py)\<close>

text \<open>\<^verbatim>\<open>lines1\<close>, \<^verbatim>\<open>lines2\<close>: the content split into lines and padded to the height.\<close>

definition join_lines :: "nat \<Rightarrow> ustring \<Rightarrow> ustring list" where
  "join_lines h s = pad_lines h (if s \<noteq> [] then split_nl s else [])"

text \<open>
  The block ``check if lines is an angle bracket that needs extending'', which the source
  writes out once for each operand.  It takes and returns the operand's
  \<^verbatim>\<open>(lines, l, h, b)\<close>; \<open>h\<close> and \<open>b\<close> are the height and baseline of the result.
\<close>

definition extend_angle ::
  "nat \<Rightarrow> nat \<Rightarrow> ustring list \<Rightarrow> nat \<Rightarrow> nat \<Rightarrow> nat \<Rightarrow> ustring list \<times> nat \<times> nat \<times> nat" where
  "extend_angle h b lines1 l1 h1 b1 =
     (if h > h1 \<and> l1 \<le> 6
      then
        (let content = join_nl lines1;
             is_left_angle = (LANGLE \<in> set content \<and>
                (SOL \<in> set content \<or> RSOL \<in> set content \<or> h1 \<le> 2));
             is_right_angle = (RANGLE \<in> set content \<and>
                (SOL \<in> set content \<or> RSOL \<in> set content \<or> h1 \<le> 2))
         in if is_left_angle \<or> is_right_angle
            then
              (let bracket_type = (if is_left_angle then LT else GT);
                   original_l1 = l1;
                   baseline_line = (if b1 < length lines1 then lines1 ! b1 else []);
                   leading_spaces = length baseline_line - length (lstrip baseline_line);
                   (new_lines, new_w) = regenerate_angle_bracket bracket_type h b;
                   (new_lines, new_w) =
                     (if original_l1 > new_w
                      then (if leading_spaces > 0
                            then map (\<lambda>line. spaces_of (int original_l1 - int new_w) @ line) new_lines
                            else new_lines,
                            original_l1)
                      else (new_lines, new_w))
               in (map (ljust new_w) new_lines, new_w, h, b))
            else (lines1, l1, h1, b1))
      else (lines1, l1, h1, b1))"

text \<open>
  The three placement loops.  \<open>place_left\<close> is
  \<^verbatim>\<open>for i in range(h1): idx = b - b1 + i; if 0 <= idx < h: result[idx] = lines1[i].ljust(l1)\<close>,
  \<open>pad_left\<close> is the loop that pads the rows the left operand does not reach, and
  \<open>place_right\<close> appends the right operand's lines.  \<open>b\<close> is the maximum of the
  baselines, so \<open>b - b1\<close> is not negative.
\<close>

definition place_left ::
  "nat \<Rightarrow> nat \<Rightarrow> nat \<Rightarrow> nat \<Rightarrow> nat \<Rightarrow> ustring list \<Rightarrow> ustring list \<Rightarrow> ustring list" where
  "place_left h b h1 b1 l1 lines1 result =
     fold (\<lambda>i res. let idx = b - b1 + i
                   in if idx < h then res[idx := ljust l1 (lines1 ! i)] else res)
       [0..<h1] result"

definition pad_left :: "nat \<Rightarrow> ustring list \<Rightarrow> ustring list" where
  "pad_left l1 result = map (\<lambda>r. if length r < l1 then ljust l1 r else r) result"

definition place_right ::
  "nat \<Rightarrow> nat \<Rightarrow> nat \<Rightarrow> nat \<Rightarrow> nat \<Rightarrow> ustring list \<Rightarrow> ustring list \<Rightarrow> ustring list" where
  "place_right h b h2 b2 l1 lines2 result =
     fold (\<lambda>i res. let idx = b - b2 + i
                   in if idx < h then res[idx := ljust l1 (take l1 (res ! idx)) @ lines2 ! i]
                      else res)
       [0..<h2] result"

text \<open>
  \<^verbatim>\<open>join_records\<close>, in the order of the source.  \<open>join_baseline\<close> and \<open>join_height\<close>
  are \<^verbatim>\<open>b\<close> and \<^verbatim>\<open>h\<close> (``calculate combined dimensions''); \<open>left_operand\<close> and
  \<open>right_operand\<close> are \<^verbatim>\<open>(lines1, l1, h1, b1)\<close> and \<^verbatim>\<open>(lines2, l2, h2, b2)\<close> after the
  two angle-bracket blocks; \<open>fill_baseline\<close> is ``ensure baseline row of lines2 has
  content''.  \<open>join_parts\<close> is the function up to its last line: it returns the fields
  \<^verbatim>\<open>(h, l, b, sp1 + sp2)\<close> and the list \<^verbatim>\<open>result\<close> of rows; \<open>join_records\<close> joins the rows
  with newlines.
\<close>

definition join_baseline :: "texrec \<Rightarrow> texrec \<Rightarrow> nat" where
  "join_baseline rec1 rec2 = max (baseline rec1) (baseline rec2)"

definition join_height :: "texrec \<Rightarrow> texrec \<Rightarrow> nat" where
  "join_height rec1 rec2 =
     (let h1 = (if height rec1 = 0 then 1 else height rec1);
          h2 = (if height rec2 = 0 then 1 else height rec2);
          b = max (baseline rec1) (baseline rec2);
          below1 = int h1 - int (baseline rec1) - 1;
          below2 = int h2 - int (baseline rec2) - 1
      in nat (int b + max below1 below2 + 1))"

definition left_operand :: "texrec \<Rightarrow> texrec \<Rightarrow> ustring list \<times> nat \<times> nat \<times> nat" where
  "left_operand rec1 rec2 =
     (let h1 = (if height rec1 = 0 then 1 else height rec1)
      in extend_angle (join_height rec1 rec2) (join_baseline rec1 rec2)
           (join_lines h1 (content rec1)) (len rec1) h1 (baseline rec1))"

definition right_operand :: "texrec \<Rightarrow> texrec \<Rightarrow> ustring list \<times> nat \<times> nat \<times> nat" where
  "right_operand rec1 rec2 =
     (let h2 = (if height rec2 = 0 then 1 else height rec2)
      in extend_angle (join_height rec1 rec2) (join_baseline rec1 rec2)
           (join_lines h2 (content rec2)) (len rec2) h2 (baseline rec2))"

definition fill_baseline :: "nat \<Rightarrow> nat \<Rightarrow> ustring list \<Rightarrow> ustring list" where
  "fill_baseline b2 l2 lines2 =
     (if b2 < length lines2 \<and> length (lines2 ! b2) = 0
      then lines2[b2 := spaces_of (int l2)] else lines2)"

definition join_parts :: "texrec \<Rightarrow> texrec \<Rightarrow> nat \<times> nat \<times> nat \<times> nat \<times> ustring list" where
  "join_parts rec1 rec2 =
     (case left_operand rec1 rec2 of (lines1, l1, h1, b1) \<Rightarrow>
      case right_operand rec1 rec2 of (lines2, l2, h2, b2) \<Rightarrow>
        (let h = join_height rec1 rec2; b = join_baseline rec1 rec2;
             l = l1 + l2;
             lines2 = fill_baseline b2 l2 lines2;
             result = replicate h [];
             result = place_left h b h1 b1 l1 lines1 result;
             result = pad_left l1 result;
             result = place_right h b h2 b2 l1 lines2 result
         in (h, l, b, spaces rec1 + spaces rec2, result)))"

definition join_rows :: "texrec \<Rightarrow> texrec \<Rightarrow> ustring list" where
  "join_rows rec1 rec2 = (case join_parts rec1 rec2 of (h, l, b, sp, result) \<Rightarrow> result)"

definition join_records :: "texrec \<Rightarrow> texrec \<Rightarrow> texrec" where
  "join_records rec1 rec2 =
     (case join_parts rec1 rec2 of (h, l, b, sp, result) \<Rightarrow>
        \<lparr>height = h, len = l, baseline = b, spaces = sp, content = join_nl result\<rparr>)"

section \<open>Python lists and exceptions\<close>

text \<open>
  The exceptions the modelled code can raise.  A function that can raise returns
  \<open>error + 'a\<close>, with \<open>Inl\<close> for the exception.
\<close>

datatype error = IndexError | RecursionError

definition and_then :: "error + 'a \<Rightarrow> ('a \<Rightarrow> error + 'b) \<Rightarrow> error + 'b" where
  "and_then m f = (case m of Inl e \<Rightarrow> Inl e | Inr x \<Rightarrow> f x)"

text \<open>A \<^verbatim>\<open>for\<close> loop whose body can raise.\<close>

fun for_each :: "('a \<Rightarrow> 's \<Rightarrow> error + 's) \<Rightarrow> 'a list \<Rightarrow> 's \<Rightarrow> error + 's" where
  "for_each f [] s = Inr s"
| "for_each f (x # xs) s = and_then (f x s) (for_each f xs)"

text \<open>\<^verbatim>\<open>range(a, b)\<close> over Python integers.\<close>

definition py_range :: "int \<Rightarrow> int \<Rightarrow> int list" where
  "py_range a b = map (\<lambda>k. a + int k) [0..<nat (b - a)]"

text \<open>
  \<^verbatim>\<open>xs[i]\<close>: a negative index counts from the end, an index outside the list raises
  \<^verbatim>\<open>IndexError\<close>.  \<open>py_set\<close> is the assignment \<^verbatim>\<open>xs[i] = v\<close>.
\<close>

definition py_get :: "'a list \<Rightarrow> int \<Rightarrow> error + 'a" where
  "py_get xs i =
     (if 0 \<le> i \<and> i < int (length xs) then Inr (xs ! nat i)
      else if i < 0 \<and> - int (length xs) \<le> i then Inr (xs ! nat (int (length xs) + i))
      else Inl IndexError)"

definition py_set :: "'a list \<Rightarrow> int \<Rightarrow> 'a \<Rightarrow> error + 'a list" where
  "py_set xs i v =
     (if 0 \<le> i \<and> i < int (length xs) then Inr (xs[nat i := v])
      else if i < 0 \<and> - int (length xs) \<le> i then Inr (xs[nat (int (length xs) + i) := v])
      else Inl IndexError)"

text \<open>
  Slices never raise: a bound is first brought into \<open>0 .. len(xs)\<close>.
  \<open>py_upto xs k\<close> is \<^verbatim>\<open>xs[:k]\<close>, \<open>py_from xs k\<close> is \<^verbatim>\<open>xs[k:]\<close>, and
  \<open>py_splice xs a b v\<close> is the list after \<^verbatim>\<open>xs[a:b] = [v]\<close>.
\<close>

definition slice_bound :: "'a list \<Rightarrow> int \<Rightarrow> nat" where
  "slice_bound xs k =
     (let n = int (length xs) in nat (if k < 0 then max 0 (n + k) else min k n))"

definition py_upto :: "'a list \<Rightarrow> int \<Rightarrow> 'a list" where
  "py_upto xs k = take (slice_bound xs k) xs"

definition py_from :: "'a list \<Rightarrow> int \<Rightarrow> 'a list" where
  "py_from xs k = drop (slice_bound xs k) xs"

definition py_splice :: "'a list \<Rightarrow> int \<Rightarrow> int \<Rightarrow> 'a \<Rightarrow> 'a list" where
  "py_splice xs a b v =
     (let lo = slice_bound xs a; hi = max lo (slice_bound xs b)
      in take lo xs @ [v] @ drop hi xs)"

text \<open>\<^verbatim>\<open>xs.pop()\<close>: the list without its last element; raises on the empty list.\<close>

definition py_pop :: "'a list \<Rightarrow> error + 'a list" where
  "py_pop xs = (if xs = [] then Inl IndexError else Inr (butlast xs))"

section \<open>Interpreter state (state.py)\<close>

text \<open>
  An entry of \<^verbatim>\<open>state.wait\<close> is either a closing token or event name (\<^verbatim>\<open>"}"\<close>,
  \<^verbatim>\<open>"LeftRight"\<close>, \<^verbatim>\<open>""\<close>) or the number of chunks to collect.  The same values are
  passed to \<^verbatim>\<open>finish\<close> as its \<^verbatim>\<open>event\<close>.
\<close>

datatype event = Ev string | Count int

record state =
  level :: "int list"
  chunks :: "int list"
  tokenByToken :: "int list"
  out :: "texrec list"
  wait :: "event list"
  action :: "string list"
  curlength :: int
  par :: ustring
  stdout :: "ustring list"

section \<open>Scope stack (stack.py)\<close>

text \<open>\<^verbatim>\<open>start(event, act)\<close>.\<close>

definition start :: "event \<Rightarrow> string \<Rightarrow> state \<Rightarrow> error + state" where
  "start ev act s =
     and_then (py_get (level s) (-1)) (\<lambda>lv.
     and_then (py_get (chunks s) lv) (\<lambda>c_lv.
     and_then (if c_lv \<le> int (length (out s)) - 1
               then py_get (chunks s) (-1) else Inr 0) (\<lambda>c_last.
       let s = (if c_lv \<le> int (length (out s)) - 1 \<and> c_last \<le> int (length (out s)) - 1
                then s\<lparr>chunks := chunks s @ [int (length (out s))]\<rparr> else s)
       in Inr (s\<lparr>level := level s @ [int (length (chunks s)) - 1],
                  tokenByToken := tokenByToken s @ [0],
                  wait := wait s @ [ev],
                  action := action s @ [act]\<rparr>))))"

text \<open>\<^verbatim>\<open>assertHave(n)\<close>.\<close>

definition assertHave :: "int \<Rightarrow> state \<Rightarrow> error + bool" where
  "assertHave n s =
     and_then (py_get (level s) (-1)) (\<lambda>lv.
       let have = int (length (chunks s)) - lv in Inr (have \<ge> n))"

text \<open>\<^verbatim>\<open>collapseOne(n)\<close>: joins all records of chunk \<open>n\<close> into one.\<close>

definition collapseOne :: "int \<Rightarrow> state \<Rightarrow> error + state" where
  "collapseOne n s =
     (if n \<ge> int (length (chunks s)) then Inr s
      else
        and_then (if n = int (length (chunks s)) - 1 then Inr (int (length (out s)) - 1)
                  else and_then (py_get (chunks s) (n + 1)) (\<lambda>c. Inr (c - 1))) (\<lambda>last.
        and_then (py_get (chunks s) n) (\<lambda>start_idx.
          if last \<le> start_idx then Inr s
          else
            and_then (py_get (out s) start_idx) (\<lambda>first.
            and_then (for_each (\<lambda>i result. and_then (py_get (out s) i)
                                   (\<lambda>r. Inr (join_records result r)))
                        (py_range (start_idx + 1) (last + 1)) first) (\<lambda>result.
              Inr (s\<lparr>out := py_splice (out s) start_idx (last + 1) result\<rparr>))))))"

text \<open>
  \<^verbatim>\<open>collapse(n)\<close>.  \<open>collapseOne\<close> leaves \<^verbatim>\<open>state.chunks\<close> alone, so
  \<^verbatim>\<open>len(state.chunks)\<close> is the same number \<open>m\<close> throughout both loops.
\<close>

definition collapse :: "int \<Rightarrow> state \<Rightarrow> error + state" where
  "collapse n s =
     and_then (py_get (level s) (-1)) (\<lambda>lv.
       let have = int (length (chunks s)) - lv;
           n = (if have < n then have else n);
           m = int (length (chunks s))
       in if n > 0
          then
            and_then (for_each (\<lambda>i. collapseOne (m - 1 - i)) (py_range 0 n) s) (\<lambda>s.
              for_each (\<lambda>i s.
                  and_then (py_get (chunks s) (m - n)) (\<lambda>c.
                  and_then (py_set (chunks s) (m - i) (c + n - i)) (\<lambda>cs.
                    Inr (s\<lparr>chunks := cs\<rparr>))))
                (py_range 1 n) s)
          else Inr s)"

text \<open>\<^verbatim>\<open>trim_end(idx)\<close> and \<^verbatim>\<open>trim_beg(idx)\<close>; the guards make every index valid.\<close>

definition trim_end :: "int \<Rightarrow> state \<Rightarrow> state" where
  "trim_end i s =
     (if out s = [] \<or> i < 0 \<or> i \<ge> int (length (out s)) then s
      else if height (out s ! nat i) = 0
           then s\<lparr>out := (out s)[nat i := string2record (rstrip (content (out s ! nat i))) False]\<rparr>
           else s)"

definition trim_beg :: "int \<Rightarrow> state \<Rightarrow> state" where
  "trim_beg i s =
     (if out s = [] \<or> i < 0 \<or> i \<ge> int (length (out s)) then s
      else if height (out s ! nat i) = 0
           then s\<lparr>out := (out s)[nat i := string2record (lstrip (content (out s ! nat i))) False]\<rparr>
           else s)"

text \<open>\<^verbatim>\<open>trim_one(n)\<close> and \<^verbatim>\<open>trim(n)\<close>.\<close>

definition trim_one :: "int \<Rightarrow> state \<Rightarrow> error + state" where
  "trim_one n s =
     and_then (py_get (chunks s) n) (\<lambda>c.
       let s = trim_beg c s
       in if n = int (length (chunks s)) - 1
          then Inr (trim_end (int (length (out s)) - 1) s)
          else and_then (py_get (chunks s) (n + 1)) (\<lambda>c'. Inr (trim_end (c' - 1) s)))"

definition trim :: "int \<Rightarrow> state \<Rightarrow> error + state" where
  "trim n s =
     for_each trim_one (py_range (int (length (chunks s)) - n) (int (length (chunks s)))) s"

text \<open>
  What the scope stack calls but does not define.  \<^verbatim>\<open>callsub(sub)\<close> looks the handler
  up by its name in the modules \<^verbatim>\<open>commands\<close> and \<^verbatim>\<open>math_ops\<close> at run time, so the table
  of handlers is a parameter; so are \<^verbatim>\<open>prepare_cut\<close> (line breaking and printing of a
  record that does not fit the line), the configured line width, and the test
  \<^verbatim>\<open>unicodedata.category(c).startswith("L")\<close> of the Python library.
\<close>

record env =
  callsub :: "string \<Rightarrow> state \<Rightarrow> error + state"
  prepare_cut :: "texrec \<Rightarrow> state \<Rightarrow> error + texrec \<times> state"
  linelength :: int
  is_letter :: "nat \<Rightarrow> bool"

text \<open>
  \<^verbatim>\<open>finish(event, force_one_group)\<close> and \<^verbatim>\<open>commit(rec)\<close> call each other.  The first
  argument bounds the depth of these nested calls; running out of it is Python's
  \<^verbatim>\<open>RecursionError\<close>.
\<close>

fun finish :: "nat \<Rightarrow> env \<Rightarrow> event \<Rightarrow> bool \<Rightarrow> state \<Rightarrow> error + state"
  and commit :: "nat \<Rightarrow> env \<Rightarrow> texrec \<Rightarrow> state \<Rightarrow> error + state" where
  "finish 0 e ev force_one_group s = Inl RecursionError"
| "finish (Suc n) e ev force_one_group s =
     (if length (level s) \<le> 1 then Inr s
      else
        and_then (py_get (level s) (-1)) (\<lambda>lv.
        and_then (py_get (chunks s) lv) (\<lambda>c_lv.
          let s = (if int (length (out s)) < c_lv then s\<lparr>out := out s @ [empty]\<rparr> else s);
              s = s\<lparr>chunks := py_upto (chunks s) (lv + 1)\<rparr>
          in
            and_then (if length (level s) = 2 \<and> \<not> force_one_group
                      then and_then (py_get (chunks s) (-1)) (\<lambda>c.
                             Inr (py_from (out s) c, s\<lparr>out := py_upto (out s) c\<rparr>))
                      else Inr ([], s)) (\<lambda>(t, s).
            and_then (py_pop (level s)) (\<lambda>level'.
            and_then (py_pop (action s)) (\<lambda>action'.
            and_then (py_pop (tokenByToken s)) (\<lambda>tbt'.
            and_then (py_pop (wait s)) (\<lambda>wait'.
              let s = s\<lparr>level := level', action := action', tokenByToken := tbt', wait := wait'\<rparr>
              in
                and_then (if length (level s) = 1 \<and> \<not> force_one_group
                          then for_each (commit n e) t s else Inr s) (\<lambda>s.
                  if length (level s) > 1
                  then
                    and_then (py_get (wait s) (-1)) (\<lambda>w.
                    and_then (py_get (level s) (-1)) (\<lambda>lv.
                      if w = Count (int (length (chunks s)) - lv)
                      then
                        and_then (py_get (action s) (-1)) (\<lambda>sub.
                          if sub = [] then finish n e w False s else callsub e sub s)
                      else Inr s))
                  else Inr s)))))))))"
| "commit 0 e rec s = Inl RecursionError"
| "commit (Suc n) e rec s =
     and_then (if length (level s) = 1
               then
                 (let l = int (get_length rec)
                  in and_then (if curlength s + l > linelength e
                               then prepare_cut e rec s else Inr (rec, s)) (\<lambda>(rec, s).
                       Inr (rec, s\<lparr>curlength := curlength s + int (get_length rec)\<rparr>)))
               else Inr (rec, s)) (\<lambda>(rec, s).
       let s = s\<lparr>out := out s @ [rec]\<rparr>
       in
         and_then (py_get (chunks s) (-1)) (\<lambda>c.
           let s = (if int (length (out s)) - 1 \<noteq> c
                    then s\<lparr>chunks := chunks s @ [int (length (out s)) - 1]\<rparr> else s)
           in
             if length (level s) > 1
             then
               and_then (py_get (wait s) (int (length (level s)) - 1)) (\<lambda>w.
               and_then (py_get (level s) (int (length (level s)) - 1)) (\<lambda>lv.
                 if w = Count (int (length (chunks s)) - lv)
                 then
                   and_then (py_get (action s) (int (length (level s)) - 1)) (\<lambda>sub.
                     if sub = [] then finish n e w False s else callsub e sub s)
                 else Inr s))
             else Inr s))"

text \<open>\<^verbatim>\<open>puts(s, no_expand)\<close>.\<close>

definition puts :: "nat \<Rightarrow> env \<Rightarrow> ustring \<Rightarrow> bool \<Rightarrow> state \<Rightarrow> error + state" where
  "puts n e s no_expand st = commit n e (string2record s no_expand) st"

section \<open>Construct builders (math_ops.py, commands.py)\<close>

abbreviation BACKSLASH :: nat where "BACKSLASH \<equiv> 92"

definition is_ascii_letter :: "nat \<Rightarrow> bool" where
  "is_ascii_letter c \<longleftrightarrow> (65 \<le> c \<and> c \<le> 90) \<or> (97 \<le> c \<and> c \<le> 122)"






text \<open>
  \<^verbatim>\<open>f_putover(rec, no_finish)\<close>.  The source accepts a record or a plain string and tells
  them apart by the leading digit and comma; here the argument is a record, as it is for
  every caller in the model.
\<close>

definition f_putover :: "nat \<Rightarrow> env \<Rightarrow> texrec \<Rightarrow> bool \<Rightarrow> state \<Rightarrow> error + state" where
  "f_putover n e rec no_finish s =
     and_then (trim 1 s) (\<lambda>s.
     and_then (collapse 1 s) (\<lambda>s.
     and_then (assertHave 1 s) (\<lambda>ok.
       if \<not> ok then finish n e (Ev []) True s
       else
         and_then (py_get (out s) (-1)) (\<lambda>r.
           let l1 = len r; b = baseline r;
               l2 = get_length rec;
               n' = max l1 l2;
               b1 = (if height rec = 0 then 1 else height rec);
               b = b + b1 + 1;
               r = vStack (center (int n') rec) (center (int n') r);
               r = setbaseline r b
           in
             and_then (py_set (out s) (-1) r) (\<lambda>out'.
               let s = s\<lparr>out := out'\<rparr>
               in if \<not> no_finish then finish n e (Count 1) True s else Inr s)))))"

definition f_putover_string :: "nat \<Rightarrow> env \<Rightarrow> ustring \<Rightarrow> state \<Rightarrow> error + state" where
  "f_putover_string n e str s = f_putover n e (string2record str False) False s"

text \<open>\<^verbatim>\<open>f_widehat()\<close>.\<close>

definition f_widehat :: "nat \<Rightarrow> env \<Rightarrow> state \<Rightarrow> error + state" where
  "f_widehat n e s =
     and_then (trim 1 s) (\<lambda>s.
     and_then (collapse 1 s) (\<lambda>s.
     and_then (py_get (out s) (-1)) (\<lambda>r.
       let l = get_length r
       in if l \<le> 1
          then f_putover n e (string2record (ustr ''^'') False) False s
          else f_putover n e
                 (string2record (ustr ''/'' @ replicate (l - 2) 126 @ [BACKSLASH]) False)
                 False s)))"

text \<open>\<^verbatim>\<open>right()\<close>, the handler of \<^verbatim>\<open>\right\<close>.\<close>

definition right :: "nat \<Rightarrow> env \<Rightarrow> state \<Rightarrow> error + state" where
  "right n e s =
     and_then (finish n e (Ev ''LeftRight'') True s) (\<lambda>s.
     and_then (trim 1 s) (\<lambda>s.
       collapse 1 s))"

section \<open>Output and justification (output.py)\<close>

text \<open>
  \<^verbatim>\<open>printrecord(rec)\<close>: the text handed to \<^verbatim>\<open>print\<close>, or \<open>None\<close> when nothing is
  printed.
\<close>

definition printrecord :: "texrec \<Rightarrow> ustring option" where
  "printrecord r =
     (let ls = map rstrip (filter (\<lambda>line. rstrip line \<noteq> []) (split_nl (content r)))
      in if ls = [] then None
         else
           (let leadings = map (\<lambda>line. length line - length (lstrip line))
                              (filter (\<lambda>line. line \<noteq> []) ls);
                min_indent = (if leadings = [] then 0 else fold min (tl leadings) (hd leadings));
                ls = (if min_indent > 0
                      then map (\<lambda>line. if length line \<ge> min_indent then drop min_indent line
                                        else line) ls
                      else ls)
            in Some (join_nl ls)))"

text \<open>
  The closure returned by \<^verbatim>\<open>exp_sp_maker(fr, re_val)\<close>.  Its two counters \<^verbatim>\<open>c1\<close> and
  \<^verbatim>\<open>c2\<close> live as long as the closure, so they are passed in and returned.
\<close>

definition exp_sp :: "int \<Rightarrow> int \<Rightarrow> int \<times> int \<Rightarrow> ustring \<times> int \<times> int" where
  "exp_sp fr re_val cs =
     (let c1 = fst cs + 1;
          c2 = (if c1 > re_val then 0 else snd cs)
      in (spaces_of (c2 + fr + 1), c1, c2))"

text \<open>The initial counters, \<^verbatim>\<open>c1, c2 = [0], [0]\<close>.\<close>

definition exp_sp_maker :: "int \<times> int" where
  "exp_sp_maker = (0, 0)"

text \<open>\<^verbatim>\<open>re.sub(r" ", expander, s)\<close>: every space is replaced by what the closure returns.\<close>

fun sub_spaces :: "int \<Rightarrow> int \<Rightarrow> ustring \<Rightarrow> int \<times> int \<Rightarrow> ustring \<times> int \<times> int" where
  "sub_spaces fr re_val [] cs = ([], cs)"
| "sub_spaces fr re_val (c # s) cs =
     (if c = SP
      then (case exp_sp fr re_val cs of (rep, cs') \<Rightarrow>
              case sub_spaces fr re_val s cs' of (s', cs'') \<Rightarrow> (rep @ s', cs''))
      else (case sub_spaces fr re_val s cs of (s', cs'') \<Rightarrow> (c # s', cs'')))"

text \<open>
  The block ``justify text if needed'' of \<^verbatim>\<open>do_print\<close>, entered when the flush is not
  forced and the total width \<open>l\<close> is at most the line width.  It returns the buffer with
  the spaces of the reflowable records expanded.
\<close>

definition count_expandable :: "texrec list \<Rightarrow> int \<Rightarrow> error + int" where
  "count_expandable outb last_idx =
     for_each (\<lambda>i exp. and_then (py_get outb i) (\<lambda>r.
                 Inr (if height r = 0 then exp + int (count_list (content r) SP) else exp)))
       (py_range 0 (last_idx + 1)) 0"

definition expand_records ::
  "int \<Rightarrow> int \<Rightarrow> int \<Rightarrow> texrec list \<Rightarrow> error + texrec list" where
  "expand_records fr re_val last_idx outb =
     and_then
       (for_each (\<lambda>i (outb, cs). and_then (py_get outb i) (\<lambda>r.
            if height r = 0
            then (case sub_spaces fr re_val (content r) cs of (s, cs') \<Rightarrow>
                    and_then (py_set outb i (string2record s False)) (\<lambda>outb'. Inr (outb', cs')))
            else Inr (outb, cs)))
          (py_range 0 (last_idx + 1)) (outb, exp_sp_maker))
       (\<lambda>(outb, cs). Inr outb)"

definition justify :: "int \<Rightarrow> bool \<Rightarrow> int \<Rightarrow> int \<Rightarrow> texrec list \<Rightarrow> error + texrec list" where
  "justify linelen ragged l last_idx outb =
     (let extra = linelen - l
      in if extra > 0 \<and> \<not> ragged
         then
           and_then (count_expandable outb last_idx) (\<lambda>exp.
             if exp \<noteq> 0
             then (let re_val = extra mod exp;
                       fr = (extra - re_val) div exp
                   in expand_records fr re_val last_idx outb)
             else Inr outb)
         else Inr outb)"

text \<open>\<^verbatim>\<open>do_print(force)\<close>; \<open>ragged\<close> is \<^verbatim>\<open>config.opt_ragged\<close>.\<close>

definition do_print :: "int \<Rightarrow> bool \<Rightarrow> bool \<Rightarrow> state \<Rightarrow> error + state" where
  "do_print linelen ragged force s =
     and_then (if length (level s) > 1
               then and_then (py_get (level s) 1) (\<lambda>lv.
                    and_then (py_get (chunks s) lv) (\<lambda>c. Inr (c - 1)))
               else Inr (int (length (out s)) - 1)) (\<lambda>last_idx.
       if last_idx < 0 then Inr s
       else
         and_then (for_each (\<lambda>i l. and_then (py_get (out s) i) (\<lambda>r. Inr (l + int (get_length r))))
                     (py_range 0 (last_idx + 1)) 0) (\<lambda>l.
           let s = s\<lparr>curlength := l\<rparr>
           in
             and_then (if \<not> force \<and> l \<le> linelen
                       then justify linelen ragged (curlength s) last_idx (out s)
                       else Inr (out s)) (\<lambda>outb.
               let s = s\<lparr>out := outb\<rparr>
               in
                 and_then (py_get (out s) 0) (\<lambda>first.
                 and_then (for_each (\<lambda>i result. and_then (py_get (out s) i)
                                        (\<lambda>r. Inr (join_records result r)))
                             (py_range 1 (last_idx + 1)) first) (\<lambda>result.
                   let s = (case printrecord result of
                              None \<Rightarrow> s | Some text \<Rightarrow> s\<lparr>stdout := stdout s @ [text]\<rparr>);
                       s = s\<lparr>curlength := 0\<rparr>;
                       s = (if int (length (out s)) > last_idx + 1
                            then s\<lparr>out := py_from (out s) (last_idx + 1),
                                   chunks := map (\<lambda>c. c - (last_idx + 1)) (chunks s)\<rparr>
                            else s\<lparr>out := []\<rparr>)
                   in
                     if length (level s) > 1
                     then and_then (py_get (level s) 1) (\<lambda>lv.
                            Inr (s\<lparr>chunks := py_upto (chunks s) 1 @ py_from (chunks s) lv\<rparr>))
                     else Inr (s\<lparr>chunks := [0]\<rparr>))))))"

section \<open>Dispatch of the tokens used below (parser.py, commands.py)\<close>

text \<open>
  The branch of the parsing loop for a command of type \<^verbatim>\<open>subN\<close>:
  \<^verbatim>\<open>stack.start(n, func_name); state.tokenByToken[-1] = 1\<close>; and the handlers of the two
  braces.
\<close>

definition dispatch_subN :: "int \<Rightarrow> string \<Rightarrow> state \<Rightarrow> error + state" where
  "dispatch_subN n func_name s =
     and_then (start (Count n) func_name s) (\<lambda>s.
     and_then (py_set (tokenByToken s) (-1) 1) (\<lambda>tbt.
       Inr (s\<lparr>tokenByToken := tbt\<rparr>)))"

definition open_curly :: "state \<Rightarrow> error + state" where
  "open_curly s = start (Ev ''}'') [] s"

definition close_curly :: "nat \<Rightarrow> env \<Rightarrow> state \<Rightarrow> error + state" where
  "close_curly n e s = finish n e (Ev ''}'') False s"

section \<open>States and inputs of the scenarios\<close>

text \<open>The state of \<^verbatim>\<open>state.py\<close> before any input, and the paragraph indentation record.\<close>

definition initial_state :: state where
  "initial_state = \<lparr>level = [0], chunks = [0], tokenByToken = [0], out = [],
     wait = [Ev []], action = [[]], curlength = 0, par = [], stdout = []\<rparr>"

definition indent_record :: texrec where
  "indent_record = \<lparr>height = 1, len = 5, baseline = 0, spaces = 0, content = replicate 5 SP\<rparr>"

text \<open>An environment with no handlers, the default line width and ASCII letters.\<close>

definition null_env :: env where
  "null_env = \<lparr>callsub = (\<lambda>sub s. Inr s), prepare_cut = (\<lambda>r s. Inr (r, s)),
     linelength = 150, is_letter = is_ascii_letter\<rparr>"

text \<open>
  The state in which \<^verbatim>\<open>f_widehat\<close> is called for the input \<^verbatim>\<open>\noindent\widehat{}\<close>: the
  scope of \<^verbatim>\<open>\widehat\<close> is open, its one chunk is counted, and the buffer is empty.
\<close>

definition widehat_state :: state where
  "widehat_state = \<lparr>level = [0, 0], chunks = [0], tokenByToken = [0, 1], out = [],
     wait = [Ev [], Count 1], action = [[], ''f_widehat''], curlength = 0, par = [],
     stdout = []\<rparr>"

text \<open>
  \<open>stray_right_state\<close>: the input \<^verbatim>\<open>x \right) y\<close> when \<^verbatim>\<open>\right\<close> is read, no scope being
  open.  \<open>brace_state\<close>: the input \<^verbatim>\<open>{a\right)b}\<close> when \<^verbatim>\<open>\right\<close> is read, inside the
  brace group.
\<close>

definition stray_right_state :: state where
  "stray_right_state = \<lparr>level = [0], chunks = [0, 1], tokenByToken = [0],
     out = [indent_record, string2record (ustr ''x '') False],
     wait = [Ev []], action = [[]], curlength = 7, par = ustr '') y'', stdout = []\<rparr>"

definition brace_state :: state where
  "brace_state = \<lparr>level = [0, 1], chunks = [0, 1], tokenByToken = [0, 0],
     out = [indent_record, string2record (ustr ''a'') False],
     wait = [Ev [], Ev ''}''], action = [[], []], curlength = 5, par = ustr '')b}'',
     stdout = []\<rparr>"

text \<open>
  The state in which \<^verbatim>\<open>f_fraction\<close> is called for the input \<^verbatim>\<open>\frac{a+b}{c}\<close>: after the
  indentation, the two arguments are the two chunks of the scope opened by \<^verbatim>\<open>\frac\<close>.
\<close>

definition fraction_state :: state where
  "fraction_state = \<lparr>level = [0, 1], chunks = [0, 1, 2], tokenByToken = [0, 1],
     out = [indent_record, string2record (ustr ''a+b'') False, string2record (ustr ''c'') False],
     wait = [Ev [], Count 2], action = [[], ''f_fraction''], curlength = 5, par = [],
     stdout = []\<rparr>"

text \<open>
  A line that is flushed without force at line width 10: the left part \<^verbatim>\<open>"a b c "\<close> that
  \<^verbatim>\<open>prepare_cut\<close> cuts off the paragraph \<^verbatim>\<open>a b c defghijklmn\<close> when the program runs with
  \<^verbatim>\<open>--noindent\<close> (\<^verbatim>\<open>config.opt_noindent\<close>), so that no indentation record precedes the text.
  (A leading \<^verbatim>\<open>\noindent\<close> followed by a letter does not suppress the indentation: the
  pattern in \<^verbatim>\<open>paragraph\<close> wants a non-letter after it.)
\<close>

definition flush_state :: state where
  "flush_state = \<lparr>level = [0], chunks = [0], tokenByToken = [0],
     out = [fst (cut 6 (string2record (ustr ''a b c defghijklmn'') False))],
     wait = [Ev []], action = [[]], curlength = 6, par = [], stdout = []\<rparr>"

section \<open>Tokens and macro expansion (config.py, commands.py, parser.py)\<close>






text \<open>
  The macro tables of \<^verbatim>\<open>state.py\<close>, and what the parsing loop calls for every token
  that is not a user-defined macro (\<open>dispatch\<close>: the handlers of text, commands and
  special characters, which may change the state and the tables) and for the substitution
  of one argument into a macro body (\<open>subst i arg body\<close>: the two \<^verbatim>\<open>re.sub\<close> calls, whose
  replacement template the regular-expression library interprets and may reject).
\<close>

record tables =
  type_table :: "ustring \<rightharpoonup> string"
  args :: "ustring \<rightharpoonup> nat"
  defs :: "ustring \<rightharpoonup> ustring"

record handlers =
  dispatch :: "ustring \<Rightarrow> state \<times> tables \<Rightarrow> error + state \<times> tables"
  subst :: "nat \<Rightarrow> ustring \<Rightarrow> ustring \<Rightarrow> error + ustring"










section \<open>Tall delimiters (brackets.py)\<close>

text \<open>\<^verbatim>\<open>s * n\<close> on strings, and the test \<^verbatim>\<open>s in t\<close> for a substring.\<close>

definition repeat :: "ustring \<Rightarrow> int \<Rightarrow> ustring" where
  "repeat s n = concat (replicate (nat n) s)"

definition is_substring :: "ustring \<Rightarrow> ustring \<Rightarrow> bool" where
  "is_substring s t = list_ex (\<lambda>i. take (length s) (drop i t) = s) [0..<Suc (length t)]"

text \<open>\<^verbatim>\<open>makecompound(ascent, descent, base, exp_one, exp_real, top, bottom, middle)\<close>.\<close>

definition makecompound ::
  "int \<Rightarrow> int \<Rightarrow> ustring \<Rightarrow> ustring \<Rightarrow> ustring \<Rightarrow> ustring \<Rightarrow> ustring \<Rightarrow> ustring \<Rightarrow> ustring" where
  "makecompound ascent descent base exp_one exp_real top_ch bottom_ch middle =
     (if ascent \<ge> 1 \<and> descent > 0 \<and> exp_real = middle
      then top_ch @ repeat exp_real (ascent + descent - 2) @ bottom_ch
      else if descent \<le> 0 then repeat exp_one (ascent - 1) @ base
      else if ascent \<le> 1 then base @ repeat exp_one descent
      else
        (let above = (if ascent \<ge> 2 then top_ch @ repeat exp_real (ascent - 2) else top_ch);
             below = (if descent > 1 then repeat exp_real (descent - 1) @ bottom_ch else bottom_ch)
         in above @ middle @ below))"

text \<open>
  The table of \<^verbatim>\<open>makehigh_inplace\<close> for the delimiters built by \<^verbatim>\<open>makecompound\<close>:
  \<^verbatim>\<open>[base, exp_one, exp_real, top, bottom, middle]\<close>, or \<open>None\<close> for a delimiter that is
  not in the table.
\<close>

definition compound_spec :: "ustring \<Rightarrow> nat \<Rightarrow> nat \<Rightarrow> ustring list option" where
  "compound_spec s h left_sp =
     (if s = ustr ''('' then Some [ustr ''('', [SP], [9474], [9581], [9584], [9474]]
      else if s = ustr '')'' then Some [ustr '')'', [SP], [9474], [9582], [9583], [9474]]
      else if s = ustr ''{'' then Some [ustr ''{'', [SP], [9474], [9581], [9584], [9569]]
      else if s = ustr ''}'' then Some [ustr ''}'', [SP], [9474], [9582], [9583], [9566]]
      else if s = ustr ''|'' \<or> s = ustr ''||''
      then (if h \<ge> 3
            then (if left_sp = 0
                  then Some [ustr ''|'', [SP], [9474], [9581], [9584], [9474]]
                  else Some [ustr ''|'', [SP], [9474], [9582], [9583], [9474]])
            else Some (replicate 6 (ustr ''|'')))
      else if s = ustr ''['' then Some [ustr ''['', [SP], [9474], [9484], [9492], [9474]]
      else if s = ustr '']'' then Some [ustr '']'', [SP], [9474], [9488], [9496], [9474]]
      else None)"

text \<open>
  The angle-bracket branch of \<^verbatim>\<open>makehigh_inplace\<close>, which repeats the loop of
  \<^verbatim>\<open>regenerate_angle_bracket\<close> in place and builds the record from its lines.
\<close>

definition makehigh_angle :: "ustring \<Rightarrow> nat \<Rightarrow> nat \<Rightarrow> texrec" where
  "makehigh_angle s h b =
     (let max_dist = max (int b) (int h - int b - 1);
          width = max_dist + 1;
          result_lines = map (angle_row (if s = [LT] then LT else GT) width b) [0..<h];
          max_w = (if result_lines \<noteq> [] then max_len result_lines else 1);
          result_lines = map (ljust max_w) result_lines
      in \<lparr>height = h, len = max_w, baseline = b, spaces = 0, content = join_nl result_lines\<rparr>)"

text \<open>The two statements ``add spacing'' that end both branches.\<close>

definition add_spacing :: "nat \<Rightarrow> nat \<Rightarrow> texrec \<Rightarrow> texrec" where
  "add_spacing left_sp right_sp r =
     (let r = (if left_sp \<noteq> 0
               then join_records (string2record (replicate left_sp SP) False) r else r)
      in if right_sp \<noteq> 0
         then join_records r (string2record (replicate right_sp SP) False) else r)"

text \<open>
  \<^verbatim>\<open>makehigh_inplace(out, idx, h, b, left_sp, right_sp)\<close>; the result is the buffer
  \<^verbatim>\<open>out\<close> after the call.
\<close>

definition makehigh_inplace ::
  "texrec list \<Rightarrow> int \<Rightarrow> nat \<Rightarrow> nat \<Rightarrow> nat \<Rightarrow> nat \<Rightarrow> error + texrec list" where
  "makehigh_inplace outb idx h b left_sp right_sp =
     and_then (py_get outb idx) (\<lambda>r.
       let s = content r
       in if s = ustr ''.'' then py_set outb idx (r\<lparr>content := [SP]\<rparr>)
          else
            (let h = (if h > 0 then h else 1);
                 d = int h - int b - 1
             in if h < 2 \<or> (h = 2 \<and> is_substring s (ustr ''()<>'')) then Inr outb
                else
                  (case compound_spec s h left_sp of
                     Some c \<Rightarrow>
                       (let compound = makecompound (int b + 1) d
                                         (c ! 0) (c ! 1) (c ! 2) (c ! 3) (c ! 4) (c ! 5);
                            r = vputs compound b;
                            r = (if length s = 2 then join_records r r else r)
                        in py_set outb idx (add_spacing left_sp right_sp r))
                   | None \<Rightarrow>
                       if s = ustr ''<'' \<or> s = ustr ''>''
                       then (if h = 2 then Inr outb
                             else py_set outb idx
                                    (add_spacing left_sp right_sp (makehigh_angle s h b)))
                       else Inr outb)))"

section \<open>When the join redraws an operand\<close>

text \<open>
  The guard of the two angle-bracket blocks of \<^verbatim>\<open>join_records\<close>: the operand is lower
  than the result, at most six columns wide, and its content holds a tip glyph together
  with an arm glyph or is at most two rows high.  \<open>left_regenerated\<close> and
  \<open>right_regenerated\<close> say that the guard holds for the left and for the right operand.
\<close>

definition regenerated :: "nat \<Rightarrow> ustring list \<Rightarrow> nat \<Rightarrow> nat \<Rightarrow> bool" where
  "regenerated h lines1 l1 h1 \<longleftrightarrow>
     h > h1 \<and> l1 \<le> 6 \<and>
     (let content = join_nl lines1;
          is_left_angle = (LANGLE \<in> set content \<and>
             (SOL \<in> set content \<or> RSOL \<in> set content \<or> h1 \<le> 2));
          is_right_angle = (RANGLE \<in> set content \<and>
             (SOL \<in> set content \<or> RSOL \<in> set content \<or> h1 \<le> 2))
      in is_left_angle \<or> is_right_angle)"

definition left_regenerated :: "texrec \<Rightarrow> texrec \<Rightarrow> bool" where
  "left_regenerated rec1 rec2 =
     regenerated (join_height rec1 rec2) (join_lines (get_height rec1) (content rec1))
       (len rec1) (get_height rec1)"

definition right_regenerated :: "texrec \<Rightarrow> texrec \<Rightarrow> bool" where
  "right_regenerated rec1 rec2 =
     regenerated (join_height rec1 rec2) (join_lines (get_height rec2) (content rec2))
       (len rec2) (get_height rec2)"


definition baseline_line :: "ustring list \<times> nat \<times> nat \<times> nat \<Rightarrow> ustring" where
  "baseline_line op = fst op ! snd (snd (snd op))"

text \<open>The three-row record of the fraction one half, \<^verbatim>\<open>"3,1,1,0,1\n-\n2"\<close>.\<close>

definition one_half :: texrec where
  "one_half = \<lparr>height = 3, len = 1, baseline = 1, spaces = 0,
                content = ustr ''1'' @ NL # 9472 # NL # ustr ''2''\<rparr>"

section \<open>Properties of the record combinators\<close>

lemma split_nl_nonempty: "split_nl s \<noteq> []"
  by (cases s) auto

lemma split_nl_no_NL: "x \<in> set (split_nl s) \<Longrightarrow> NL \<notin> set x"
proof (induction s arbitrary: x)
  case Nil
  then show ?case by simp
next
  case (Cons c cs)
  have ne: "split_nl cs \<noteq> []" by (rule split_nl_nonempty)
  show ?case
  proof (cases "c = NL")
    case True
    with Cons show ?thesis by auto
  next
    case False
    with Cons.prems have "x = c # hd (split_nl cs) \<or> x \<in> set (tl (split_nl cs))"
      by simp
    then show ?thesis
    proof
      assume "x = c # hd (split_nl cs)"
      moreover have "NL \<notin> set (hd (split_nl cs))"
        using Cons.IH [of "hd (split_nl cs)"] ne by simp
      ultimately show ?thesis using False by simp
    next
      assume "x \<in> set (tl (split_nl cs))"
      then have "x \<in> set (split_nl cs)" using ne by (meson list.set_sel(2))
      then show ?thesis by (rule Cons.IH)
    qed
  qed
qed

lemma split_nl_append_no_NL:
  "NL \<notin> set x \<Longrightarrow> split_nl (x @ NL # s) = x # split_nl s"
  by (induction x) auto

lemma split_nl_no_NL_id: "NL \<notin> set x \<Longrightarrow> split_nl x = [x]"
  by (induction x) auto

lemma split_join_nl:
  "xs \<noteq> [] \<Longrightarrow> \<forall>x \<in> set xs. NL \<notin> set x \<Longrightarrow> split_nl (join_nl xs) = xs"
proof (induction xs rule: join_nl.induct)
  case 1
  then show ?case by simp
next
  case (2 x)
  then show ?case by (simp add: split_nl_no_NL_id)
next
  case (3 x y ys)
  then show ?case by (simp add: split_nl_append_no_NL)
qed

lemma join_nl_eq_Nil: "join_nl xs = [] \<longleftrightarrow> xs = [] \<or> xs = [[]]"
  by (induction xs rule: join_nl.induct) auto

lemma cut_lines_length: "h \<le> length (cut_lines h s)"
  by (simp add: cut_lines_def pad_lines_def)

lemma cut_lines_no_NL: "x \<in> set (cut_lines h s) \<Longrightarrow> NL \<notin> set x"
  by (auto simp: cut_lines_def pad_lines_def dest: split_nl_no_NL split: if_splits)

lemma cut_lines_join:
  assumes "0 < h" "h \<le> length xs" "\<forall>x \<in> set xs. NL \<notin> set x"
  shows "cut_lines h (join_nl xs) = xs"
proof (cases "join_nl xs = []")
  case True
  with assms have "xs = [[]]" by (auto simp: join_nl_eq_Nil)
  with assms have "h = 1" by simp
  with \<open>xs = [[]]\<close> show ?thesis by (simp add: cut_lines_def pad_lines_def)
next
  case False
  from assms have "xs \<noteq> []" by auto
  with assms False show ?thesis
    by (simp add: cut_lines_def pad_lines_def split_join_nl)
qed


lemma cut_lines_map_take:
  assumes "0 < h"
  shows "cut_lines h (join_nl (map (take n) (cut_lines h s))) = map (take n) (cut_lines h s)"
proof (rule cut_lines_join [OF assms])
  show "h \<le> length (map (take n) (cut_lines h s))"
    by (simp add: cut_lines_length)
  show "\<forall>x \<in> set (map (take n) (cut_lines h s)). NL \<notin> set x"
    by (auto dest: in_set_takeD cut_lines_no_NL)
qed

lemma cut_lines_map_drop:
  assumes "0 < h"
  shows "cut_lines h (join_nl (map (drop n) (cut_lines h s))) = map (drop n) (cut_lines h s)"
proof (rule cut_lines_join [OF assms])
  show "h \<le> length (map (drop n) (cut_lines h s))"
    by (simp add: cut_lines_length)
  show "\<forall>x \<in> set (map (drop n) (cut_lines h s)). NL \<notin> set x"
    by (auto dest: in_set_dropD cut_lines_no_NL)
qed

text \<open>
  Claim C8.  Centering is idempotent: for every record \<open>r\<close> and target width \<open>w\<close> that is
  at least the width of \<open>r\<close>, centering the centered record again changes nothing; and a
  record that is already at least \<open>w\<close> wide is returned unchanged, so centering never
  truncates.
\<close>

theorem center_idempotent_never_truncates:
  "(int (len r) \<le> w \<longrightarrow> center w (center w r) = center w r) \<and>
   (w \<le> int (len r) \<longrightarrow> center w r = r)"
  by (simp add: center_def Let_def)

theorem center_idempotent_never_truncates_witness:
  "center 3 (center 3 (string2record (ustr ''c'') False)) = center 3 (string2record (ustr ''c'') False)
   \<and> center 3 (string2record (ustr ''c'') False) \<noteq> string2record (ustr ''c'') False
   \<and> center 1 (string2record (ustr ''c'') False) = string2record (ustr ''c'') False"
  using center_idempotent_never_truncates [of "string2record (ustr ''c'') False" 3]
    center_idempotent_never_truncates [of "string2record (ustr ''c'') False" 1]
  by (simp add: string2record_def ustr_def center_def Let_def)

text \<open>
  Claim C10.  For every record \<open>r\<close> and cut position \<open>n\<close>: when \<open>n\<close> exceeds the width of
  \<open>r\<close>, \<open>cut\<close> returns \<open>r\<close> itself paired with the empty record.  Otherwise the left
  part has width exactly \<open>n\<close> and the right part the remaining width, height and baseline
  are kept, every line of \<open>r\<close> is sliced at column \<open>n\<close> (the first \<open>n\<close> characters go
  left, the rest go right), and both parts have expandable-space count 0 whatever the
  count of \<open>r\<close> was.
\<close>

theorem cut_splits_every_line:
  "(len r < n \<longrightarrow> cut n r = (r, empty)) \<and>
   (n \<le> len r \<longrightarrow>
      len (fst (cut n r)) = n \<and> len (snd (cut n r)) = len r - n \<and>
      height (fst (cut n r)) = height r \<and> height (snd (cut n r)) = height r \<and>
      baseline (fst (cut n r)) = baseline r \<and> baseline (snd (cut n r)) = baseline r \<and>
      spaces (fst (cut n r)) = 0 \<and> spaces (snd (cut n r)) = 0 \<and>
      (if height r \<noteq> 0
       then cut_lines (height r) (content (fst (cut n r)))
              = map (take n) (cut_lines (height r) (content r)) \<and>
            cut_lines (height r) (content (snd (cut n r)))
              = map (drop n) (cut_lines (height r) (content r))
       else content (fst (cut n r)) = take n (content r) \<and>
            content (snd (cut n r)) = drop n (content r)))"
  (is "?A \<and> (?H \<longrightarrow> ?B)")
proof -
  have a: ?A by (simp add: cut_def Let_def)
  have b: ?B if le: ?H
  proof -
    from le have nneg: "\<not> int (len r) - int n < 0" by simp
    show ?thesis
    proof (cases "height r = 0")
      case True
      with nneg le show ?thesis by (simp add: cut_def Let_def nat_diff_distrib')
    next
      case False
      then have pos: "0 < height r" by simp
      from False nneg le show ?thesis
        by (simp add: cut_def Let_def nat_diff_distrib'
            cut_lines_map_take [OF pos] cut_lines_map_drop [OF pos])
    qed
  qed
  from a b show ?thesis by blast
qed

theorem cut_splits_every_line_witness:
  "cut 5 (string2record (ustr ''a b'') False) = (string2record (ustr ''a b'') False, empty) \<and>
   cut 2 \<lparr>height = 2, len = 3, baseline = 0, spaces = 4, content = ustr ''abc'' @ NL # ustr ''de''\<rparr>
     = (\<lparr>height = 2, len = 2, baseline = 0, spaces = 0, content = ustr ''ab'' @ NL # ustr ''de''\<rparr>,
        \<lparr>height = 2, len = 1, baseline = 0, spaces = 0, content = ustr ''c'' @ [NL]\<rparr>)"
  using cut_splits_every_line [of "string2record (ustr ''a b'') False" 5]
    cut_splits_every_line
      [of "\<lparr>height = 2, len = 3, baseline = 0, spaces = 4, content = ustr ''abc'' @ NL # ustr ''de''\<rparr>" 2]
  by (simp add: string2record_def ustr_def cut_def cut_lines_def pad_lines_def Let_def)

section \<open>Properties of the angle-bracket generator\<close>

lemma fold_max_eq:
  "a \<le> m \<Longrightarrow> \<forall>x \<in> set xs. x \<le> m \<Longrightarrow> a = m \<or> m \<in> set xs \<Longrightarrow> fold max xs a = (m::nat)"
proof (induction xs arbitrary: a)
  case Nil
  then show ?case by simp
next
  case (Cons x xs)
  show ?case
    unfolding fold_simps
  proof (rule Cons.IH)
    show "max x a \<le> m" using Cons.prems by simp
    show "\<forall>x \<in> set xs. x \<le> m" using Cons.prems by simp
    show "max x a = m \<or> m \<in> set xs" using Cons.prems by (auto simp: max_def)
  qed
qed

lemma max_len_eq:
  "\<forall>x \<in> set ls. length x \<le> m \<Longrightarrow> \<exists>x \<in> set ls. length x = m \<Longrightarrow> max_len ls = m"
  unfolding max_len_def by (rule fold_max_eq) auto

lemma length_angle_row_LT:
  "length (angle_row LT w b r) = row_dist r b + 1"
  by (auto simp: angle_row_def spaces_of_def row_dist_def Let_def)

lemma length_angle_row_GT:
  "bt \<noteq> LT \<Longrightarrow> length (angle_row bt w b r) = nat (w - 1 - int (row_dist r b)) + 1"
  by (auto simp: angle_row_def spaces_of_def row_dist_def Let_def)

lemma angle_width:
  assumes "b < h"
  shows "max_len (map (angle_row bt (int (max b (h - b - 1)) + 1) b) [0..<h]) = max b (h - b - 1) + 1"
proof (rule max_len_eq)
  show "\<forall>x\<in>set (map (angle_row bt (int (max b (h - b - 1)) + 1) b) [0..<h]). length x \<le> max b (h - b - 1) + 1"
    using assms by (cases "bt = LT") (auto simp: length_angle_row_LT length_angle_row_GT row_dist_def)
  show "\<exists>x\<in>set (map (angle_row bt (int (max b (h - b - 1)) + 1) b) [0..<h]). length x = max b (h - b - 1) + 1"
  proof (cases "bt = LT")
    case True
    show ?thesis
    proof (cases "b \<ge> h - b - 1")
      case True
      with \<open>bt = LT\<close> assms show ?thesis
        by (auto simp: length_angle_row_LT row_dist_def intro!: bexI [of _ 0])
    next
      case False
      with \<open>bt = LT\<close> assms show ?thesis
        by (auto simp: length_angle_row_LT row_dist_def intro!: bexI [of _ "h - 1"])
    qed
  next
    case False
    with assms show ?thesis
      by (auto simp: length_angle_row_GT row_dist_def intro!: bexI [of _ b])
  qed
qed

lemma regenerate_eq:
  assumes "b < h"
  shows "regenerate_angle_bracket bt h b =
           (map (\<lambda>r. ljust (max b (h - b - 1) + 1) (angle_row bt (int (max b (h - b - 1)) + 1) b r)) [0..<h],
            max b (h - b - 1) + 1)"
proof -
  have m: "max (int b) (int h - int b - 1) = int (max b (h - b - 1))"
    using assms by (cases "b \<le> h - b - 1") (simp_all add: max_def of_nat_diff, linarith+)
  have ne: "map (angle_row bt (int (max b (h - b - 1)) + 1) b) [0..<h] \<noteq> []"
    using assms by simp
  show ?thesis
    unfolding regenerate_angle_bracket_def Let_def m
    using ne angle_width [OF assms, of bt] by simp
qed

lemma regenerate_angle_bracket_rows:
  assumes "1 \<le> h" and "b < h"
  shows "length (fst (regenerate_angle_bracket bt h b)) = h \<and>
         snd (regenerate_angle_bracket bt h b) = max b (h - b - 1) + 1 \<and>
         (\<forall>r < h. fst (regenerate_angle_bracket bt h b) ! r =
            (if bt = LT
             then replicate (row_dist r b) SP @
                  [if r < b then SOL else if r = b then LANGLE else RSOL] @
                  replicate (max b (h - b - 1) - row_dist r b) SP
             else replicate (max b (h - b - 1) - row_dist r b) SP @
                  [if r < b then RSOL else if r = b then RANGLE else SOL] @
                  replicate (row_dist r b) SP))"
proof -
  have le: "row_dist r b \<le> max b (h - b - 1)" if "r < h" for r
    using that assms by (auto simp: row_dist_def)
  show ?thesis
    unfolding regenerate_eq [OF assms(2)]
    using le
    by (auto simp: ljust_def angle_row_def spaces_of_def row_dist_def Let_def nat_diff_distrib')
qed

lemma compound_spec_angle:
  "compound_spec (ustr ''<'') h l = None" "compound_spec (ustr ''>'') h l = None"
  by (simp_all add: compound_spec_def ustr_def)

lemma makehigh_angle_eq:
  "s = ustr ''<'' \<or> s = ustr ''>'' \<Longrightarrow>
   makehigh_angle s h b =
     \<lparr>height = h, len = snd (regenerate_angle_bracket (hd s) h b), baseline = b, spaces = 0,
      content = join_nl (fst (regenerate_angle_bracket (hd s) h b))\<rparr>"
  by (auto simp: makehigh_angle_def regenerate_angle_bracket_def Let_def ustr_def)

lemma angle_is_substring:
  "is_substring (ustr ''<'') (ustr ''()<>'')" "is_substring (ustr ''>'') (ustr ''()<>'')"
  by (simp_all add: is_substring_def ustr_def upt_rec)

lemma makehigh_angle_tall:
  assumes "3 \<le> h" "content r = ustr ''<'' \<or> content r = ustr ''>''" "py_get outb idx = Inr r"
  shows "makehigh_inplace outb idx h b left_sp right_sp =
     py_set outb idx (add_spacing left_sp right_sp
       \<lparr>height = h, len = snd (regenerate_angle_bracket (hd (content r)) h b), baseline = b,
        spaces = 0, content = join_nl (fst (regenerate_angle_bracket (hd (content r)) h b))\<rparr>)"
proof -
  have nd: "content r \<noteq> ustr ''.''" using assms(2) by (auto simp: ustr_def)
  have cs: "compound_spec (content r) h left_sp = None"
    using assms(2) compound_spec_angle by auto
  show ?thesis
    unfolding makehigh_inplace_def
    using assms nd cs makehigh_angle_eq [of "content r" h b]
    by (auto simp: and_then_def Let_def)
qed

lemma makehigh_angle_low:
  assumes "h < 3" "content r = ustr ''<'' \<or> content r = ustr ''>''" "py_get outb idx = Inr r"
  shows "makehigh_inplace outb idx h b left_sp right_sp = Inr outb"
proof -
  have nd: "content r \<noteq> ustr ''.''" using assms(2) by (auto simp: ustr_def)
  have sub: "is_substring (content r) (ustr ''()<>'')"
    using assms(2) angle_is_substring by auto
  from assms(1) have "h = 0 \<or> h = 1 \<or> h = 2" by auto
  then show ?thesis
    unfolding makehigh_inplace_def
    using assms nd sub
    by (auto simp: and_then_def Let_def)
qed

text \<open>
  Claim C7, as amended.  For every height \<open>h \<ge> 1\<close> and baseline \<open>b < h\<close>,
  \<^verbatim>\<open>regenerate_angle_bracket\<close> returns \<open>h\<close> rows and the width \<open>max b (h - b - 1) + 1\<close>; on
  row \<open>r\<close> the glyph sits \<open>|r - b|\<close> columns from the tip side (from the left edge for the
  left bracket, from the right edge for the right bracket), the rest of the row being
  blank, and the glyph is the tip exactly on row \<open>b\<close>.  \<^verbatim>\<open>makehigh_inplace\<close> replaces an
  angle-bracket delimiter by the record of exactly these rows, with the requested side
  spaces joined on, when the height is at least 3; for a height below 3 it leaves the
  one-row delimiter as it is.
\<close>

theorem angle_bracket_generator:
  "(1 \<le> h \<and> b < h \<longrightarrow>
      length (fst (regenerate_angle_bracket bt h b)) = h \<and>
      snd (regenerate_angle_bracket bt h b) = max b (h - b - 1) + 1 \<and>
      (\<forall>r < h. fst (regenerate_angle_bracket bt h b) ! r =
         (if bt = LT
          then replicate (row_dist r b) SP @
               [if r < b then SOL else if r = b then LANGLE else RSOL] @
               replicate (max b (h - b - 1) - row_dist r b) SP
          else replicate (max b (h - b - 1) - row_dist r b) SP @
               [if r < b then RSOL else if r = b then RANGLE else SOL] @
               replicate (row_dist r b) SP))) \<and>
   (3 \<le> h \<and> (content d = ustr ''<'' \<or> content d = ustr ''>'') \<and> py_get outb idx = Inr d \<longrightarrow>
      makehigh_inplace outb idx h b left_sp right_sp =
        py_set outb idx (add_spacing left_sp right_sp
          \<lparr>height = h, len = snd (regenerate_angle_bracket (hd (content d)) h b), baseline = b,
           spaces = 0,
           content = join_nl (fst (regenerate_angle_bracket (hd (content d)) h b))\<rparr>)) \<and>
   (h < 3 \<and> (content d = ustr ''<'' \<or> content d = ustr ''>'') \<and> py_get outb idx = Inr d \<longrightarrow>
      makehigh_inplace outb idx h b left_sp right_sp = Inr outb)"
proof (intro conjI)
  show "1 \<le> h \<and> b < h \<longrightarrow>
      length (fst (regenerate_angle_bracket bt h b)) = h \<and>
      snd (regenerate_angle_bracket bt h b) = max b (h - b - 1) + 1 \<and>
      (\<forall>r < h. fst (regenerate_angle_bracket bt h b) ! r =
         (if bt = LT
          then replicate (row_dist r b) SP @
               [if r < b then SOL else if r = b then LANGLE else RSOL] @
               replicate (max b (h - b - 1) - row_dist r b) SP
          else replicate (max b (h - b - 1) - row_dist r b) SP @
               [if r < b then RSOL else if r = b then RANGLE else SOL] @
               replicate (row_dist r b) SP))"
    using regenerate_angle_bracket_rows [of h b bt] by blast
next
  show "3 \<le> h \<and> (content d = ustr ''<'' \<or> content d = ustr ''>'') \<and> py_get outb idx = Inr d \<longrightarrow>
      makehigh_inplace outb idx h b left_sp right_sp =
        py_set outb idx (add_spacing left_sp right_sp
          \<lparr>height = h, len = snd (regenerate_angle_bracket (hd (content d)) h b), baseline = b,
           spaces = 0,
           content = join_nl (fst (regenerate_angle_bracket (hd (content d)) h b))\<rparr>)"
    using makehigh_angle_tall [of h d outb idx b left_sp right_sp] by blast
next
  show "h < 3 \<and> (content d = ustr ''<'' \<or> content d = ustr ''>'') \<and> py_get outb idx = Inr d \<longrightarrow>
      makehigh_inplace outb idx h b left_sp right_sp = Inr outb"
    using makehigh_angle_low [of h d outb idx b left_sp right_sp] by blast
qed

lemma upt_0_3: "[0..<3] = [0, 1, 2::nat]"
  by (simp add: upt_rec)

lemma regen_LT_3_1:
  "regenerate_angle_bracket LT 3 (Suc 0) = ([[SP, SOL], [LANGLE, SP], [SP, RSOL]], 2)"
  by (simp add: regenerate_angle_bracket_def Let_def upt_0_3 angle_row_def spaces_of_def
      max_len_def ljust_def)

theorem angle_bracket_generator_witness:
  "1 \<le> (3::nat) \<and> (1::nat) < 3 \<and>
   length (fst (regenerate_angle_bracket LT 3 1)) = 3 \<and>
   snd (regenerate_angle_bracket LT 3 1) = 2 \<and>
   fst (regenerate_angle_bracket LT 3 1) ! 1 = [LANGLE, SP] \<and>
   py_get [string2record (ustr ''<'') False] 0 = Inr (string2record (ustr ''<'') False) \<and>
   makehigh_inplace [string2record (ustr ''<'') False] 0 3 1 0 0 =
     Inr [\<lparr>height = 3, len = 2, baseline = 1, spaces = 0,
          content = [SP, SOL, NL, LANGLE, SP, NL, SP, RSOL]\<rparr>] \<and>
   makehigh_inplace [string2record (ustr ''<'') False] 0 1 0 0 0 =
     Inr [string2record (ustr ''<'') False]"
proof -
  have g: "py_get [string2record (ustr ''<'') False] 0 = Inr (string2record (ustr ''<'') False)"
    by (simp add: py_get_def)
  have c: "content (string2record (ustr ''<'') False) = ustr ''<''"
    by (simp add: string2record_def)
  note t = angle_bracket_generator
    [of 3 1 LT "string2record (ustr ''<'') False" "[string2record (ustr ''<'') False]" 0 0 0]
  note l = angle_bracket_generator
    [of 1 0 LT "string2record (ustr ''<'') False" "[string2record (ustr ''<'') False]" 0 0 0]
  from t have r: "length (fst (regenerate_angle_bracket LT 3 1)) = 3"
    "snd (regenerate_angle_bracket LT 3 1) = 2"
    "fst (regenerate_angle_bracket LT 3 1) ! 1 = [LANGLE, SP]"
    by (simp_all add: row_dist_def)
  from t g c have "makehigh_inplace [string2record (ustr ''<'') False] 0 3 1 0 0 =
     Inr [\<lparr>height = 3, len = 2, baseline = 1, spaces = 0,
          content = [SP, SOL, NL, LANGLE, SP, NL, SP, RSOL]\<rparr>]"
    by (simp add: ustr_def regen_LT_3_1 [simplified] add_spacing_def py_set_def)
  moreover from l g c have "makehigh_inplace [string2record (ustr ''<'') False] 0 1 0 0 0 =
     Inr [string2record (ustr ''<'') False]"
    by simp
  ultimately show ?thesis using r g by simp
qed

text \<open>
  At height 2 and baseline 1 the delimiter stays the one-row \<^verbatim>\<open><\<close>: not two rows of
  width 2.
\<close>

theorem makehigh_keeps_low_angle_bracket:
  "makehigh_inplace [string2record (ustr ''<'') False] 0 2 1 0 1 =
     Inr [string2record (ustr ''<'') False] \<and>
   get_height (string2record (ustr ''<'') False) = 1 \<and>
   len (string2record (ustr ''<'') False) = 1"
  by (simp add: makehigh_inplace_def py_get_def and_then_def string2record_def ustr_def
      is_substring_def upt_rec get_height_def Let_def)

section \<open>Properties of the horizontal join\<close>

lemma set_split_nl: "x \<in> set (split_nl s) \<Longrightarrow> set x \<subseteq> set s"
proof (induction s arbitrary: x)
  case Nil
  then show ?case by simp
next
  case (Cons c cs)
  have ne: "split_nl cs \<noteq> []" by (rule split_nl_nonempty)
  then have hd_in: "hd (split_nl cs) \<in> set (split_nl cs)" by simp
  have tl_in: "y \<in> set (tl (split_nl cs)) \<Longrightarrow> y \<in> set (split_nl cs)" for y
    using ne by (meson list.set_sel(2))
  have ih: "y \<in> set (split_nl cs) \<Longrightarrow> set y \<subseteq> set cs" for y
    by (rule Cons.IH)
  from Cons.prems show ?case
    using ih [OF hd_in] ih [OF tl_in] ih
    by (auto split: if_splits)
qed

lemma set_join_nl: "set (join_nl xs) \<subseteq> (\<Union>x \<in> set xs. set x) \<union> {NL}"
  by (induction xs rule: join_nl.induct) auto

lemma set_join_lines: "c \<in> set (join_nl (join_lines h s)) \<Longrightarrow> c \<noteq> NL \<Longrightarrow> c \<in> set s"
proof -
  assume c: "c \<in> set (join_nl (join_lines h s))" and n: "c \<noteq> NL"
  from c n set_join_nl [of "join_lines h s"]
  obtain x where x: "x \<in> set (join_lines h s)" "c \<in> set x" by auto
  then show "c \<in> set s"
    using set_split_nl [of x s]
    by (auto simp: join_lines_def pad_lines_def split: if_splits)
qed

lemma extend_angle_noop:
  "LANGLE \<notin> set (join_nl lines1) \<Longrightarrow> RANGLE \<notin> set (join_nl lines1) \<Longrightarrow>
   extend_angle h b lines1 l1 h1 b1 = (lines1, l1, h1, b1)"
  by (simp add: extend_angle_def Let_def)

lemma extend_angle_noop_content:
  "LANGLE \<notin> set s \<Longrightarrow> RANGLE \<notin> set s \<Longrightarrow>
   extend_angle h b (join_lines h1 s) l1 h1' b1 = (join_lines h1 s, l1, h1', b1)"
  by (rule extend_angle_noop) (auto dest: set_join_lines)

lemma extend_angle_len:
  "l1 \<le> fst (snd (extend_angle h b lines1 l1 h1 b1))"
  by (auto simp: extend_angle_def Let_def split: prod.splits)

lemma extend_angle_baseline:
  "b1 \<le> b \<Longrightarrow> snd (snd (snd (extend_angle h b lines1 l1 h1 b1))) \<le> b"
  by (auto simp: extend_angle_def Let_def split: prod.splits)

lemma join_records_fields:
  "baseline (join_records a b) = join_baseline a b"
  "height (join_records a b) = join_height a b"
  "spaces (join_records a b) = spaces a + spaces b"
  "len (join_records a b) = fst (snd (left_operand a b)) + fst (snd (right_operand a b))"
  "content (join_records a b) = join_nl (join_rows a b)"
  by (simp_all add: join_records_def join_rows_def join_parts_def Let_def split: prod.splits)

lemma left_operand_len: "len a \<le> fst (snd (left_operand a b))"
  unfolding left_operand_def Let_def by (rule extend_angle_len)

lemma right_operand_len: "len b \<le> fst (snd (right_operand a b))"
  unfolding right_operand_def Let_def by (rule extend_angle_len)

lemma left_operand_plain:
  "LANGLE \<notin> set (content a) \<Longrightarrow> RANGLE \<notin> set (content a) \<Longrightarrow>
   left_operand a b = (join_lines (get_height a) (content a), len a, get_height a, baseline a)"
  by (simp add: left_operand_def Let_def get_height_def extend_angle_noop_content)








lemma ljust_take_ljust: "ljust n (take n (if length (ljust n x) < n then ljust n (ljust n x) else ljust n x)) = take n (ljust n x)"
  by (simp add: ljust_def)





lemma left_operand_eq:
  "left_operand a b = extend_angle (join_height a b) (join_baseline a b)
     (join_lines (get_height a) (content a)) (len a) (get_height a) (baseline a)"
  by (simp add: left_operand_def get_height_def Let_def)

lemma right_operand_eq:
  "right_operand a b = extend_angle (join_height a b) (join_baseline a b)
     (join_lines (get_height b) (content b)) (len b) (get_height b) (baseline b)"
  by (simp add: right_operand_def get_height_def Let_def)


lemma extend_angle_not_regenerated:
  "\<not> regenerated h lines1 l1 h1 \<Longrightarrow> extend_angle h b lines1 l1 h1 b1 = (lines1, l1, h1, b1)"
  by (auto simp: regenerated_def extend_angle_def Let_def)

lemma left_operand_kept:
  "\<not> left_regenerated a b \<Longrightarrow>
   left_operand a b = (join_lines (get_height a) (content a), len a, get_height a, baseline a)"
  unfolding left_regenerated_def left_operand_eq by (rule extend_angle_not_regenerated)

lemma right_operand_kept:
  "\<not> right_regenerated a b \<Longrightarrow>
   right_operand a b = (join_lines (get_height b) (content b), len b, get_height b, baseline b)"
  unfolding right_regenerated_def right_operand_eq by (rule extend_angle_not_regenerated)

lemma tip_free_not_regenerated:
  "LANGLE \<notin> set s \<Longrightarrow> RANGLE \<notin> set s \<Longrightarrow> \<not> regenerated h (join_lines h1 s) l1 h1'"
  by (auto simp: regenerated_def Let_def dest: set_join_lines)

text \<open>
  Claim C2, as amended.  For every pair of records the expandable-space count of the join
  is the sum of the operands' counts, and the width of the join is at least the sum of the
  operands' widths.  The width is exactly the sum whenever neither operand is regenerated
  as an angle bracket; in particular no operand is regenerated when neither content holds
  an angle-bracket tip.
\<close>

theorem join_width_and_spaces:
  "spaces (join_records a b) = spaces a + spaces b \<and>
   len a + len b \<le> len (join_records a b) \<and>
   (\<not> left_regenerated a b \<and> \<not> right_regenerated a b \<longrightarrow>
      len (join_records a b) = len a + len b) \<and>
   (LANGLE \<notin> set (content a) \<and> RANGLE \<notin> set (content a) \<and>
    LANGLE \<notin> set (content b) \<and> RANGLE \<notin> set (content b) \<longrightarrow>
      \<not> left_regenerated a b \<and> \<not> right_regenerated a b)"
  using left_operand_len [of a b] right_operand_len [of b a]
  by (auto simp: join_records_fields left_operand_kept right_operand_kept
      left_regenerated_def right_regenerated_def tip_free_not_regenerated)







lemma one_half_lines:
  "join_lines 3 (content one_half) = [[49], [9472], [50]]"
  by (simp add: one_half_def join_lines_def pad_lines_def ustr_def)

theorem join_width_and_spaces_witness:
  "\<not> left_regenerated (string2record [LANGLE, 120, RANGLE] False) (string2record (ustr ''y z'') False) \<and>
   \<not> right_regenerated (string2record [LANGLE, 120, RANGLE] False) (string2record (ustr ''y z'') False) \<and>
   spaces (join_records (string2record [LANGLE, 120, RANGLE] False)
             (string2record (ustr ''y z'') False)) = 1 \<and>
   len (join_records (string2record [LANGLE, 120, RANGLE] False)
          (string2record (ustr ''y z'') False)) = 6"
proof -
  have h: "join_height (string2record [LANGLE, 120, RANGLE] False)
             (string2record (ustr ''y z'') False) = 1"
    by (simp add: join_height_def string2record_def Let_def)
  have n: "\<not> left_regenerated (string2record [LANGLE, 120, RANGLE] False)
               (string2record (ustr ''y z'') False)"
    "\<not> right_regenerated (string2record [LANGLE, 120, RANGLE] False)
               (string2record (ustr ''y z'') False)"
    unfolding left_regenerated_def right_regenerated_def regenerated_def h
    by (simp_all add: get_height_def string2record_def)
  from n join_width_and_spaces
    [of "string2record [LANGLE, 120, RANGLE] False" "string2record (ustr ''y z'') False"]
  show ?thesis by (simp add: string2record_def ustr_def)
qed

text \<open>
  The width is not additive when the left operand is an angle bracket that the join
  regenerates: the one-column tip next to the three-row fraction becomes two columns wide.
\<close>

theorem join_width_counterexample:
  "len (join_records (string2record [LANGLE] False) one_half)
     \<noteq> len (string2record [LANGLE] False) + len one_half"
proof -
  have h: "join_height (string2record [LANGLE] False) one_half = 3"
    by (simp add: join_height_def string2record_def one_half_def Let_def)
  have b: "join_baseline (string2record [LANGLE] False) one_half = 1"
    by (simp add: join_baseline_def string2record_def one_half_def)
  have "fst (snd (left_operand (string2record [LANGLE] False) one_half)) = 2"
    unfolding left_operand_def h b
    by (simp add: string2record_def extend_angle_def join_lines_def pad_lines_def regen_LT_3_1 Let_def)
  then show ?thesis
    using right_operand_len [of one_half "string2record [LANGLE] False"]
    by (simp add: join_records_fields string2record_def)
qed



section \<open>Properties of the scope stack\<close>

lemma py_range_0_1: "py_range 0 1 = [0]"
  by (simp add: py_range_def)

lemma trim_widehat: "trim 1 widehat_state = Inr widehat_state"
  by (simp add: trim_def widehat_state_def py_range_def trim_one_def py_get_def and_then_def
      trim_beg_def trim_end_def)

lemma collapse_widehat: "collapse 1 widehat_state = Inr widehat_state"
  by (simp add: collapse_def widehat_state_def py_range_def py_get_def and_then_def
      collapseOne_def)

text \<open>
  Claim C3.  Every builder is to check the number of collected chunks before it reads them
  and to give the construct up without an exception when the check fails.  \<^verbatim>\<open>f_widehat\<close>
  reads the last record of the buffer for its width before any check: in the state
  reached by \<^verbatim>\<open>\noindent\widehat{}\<close> the buffer is empty and the read raises
  \<^verbatim>\<open>IndexError\<close>.
\<close>

theorem f_widehat_raises: "f_widehat n e widehat_state = Inl IndexError"
  by (simp add: f_widehat_def trim_widehat collapse_widehat and_then_def)
     (simp add: widehat_state_def py_get_def)

lemma f_putover_raises: "f_putover n e r nf widehat_state = Inl IndexError"
  by (simp add: f_putover_def trim_widehat collapse_widehat and_then_def)
     (simp add: widehat_state_def py_get_def assertHave_def and_then_def)

lemma widehat_state_reached:
  "and_then (dispatch_subN 1 ''f_widehat'' initial_state) (\<lambda>s.
   and_then (open_curly s) (\<lambda>s.
     close_curly (Suc n) e s)) = callsub e ''f_widehat'' widehat_state"
  by (simp add: dispatch_subN_def open_curly_def close_curly_def start_def initial_state_def
      and_then_def py_get_def py_set_def py_pop_def py_upto_def slice_bound_def widehat_state_def)



lemma py_get_last: "xs \<noteq> [] \<Longrightarrow> py_get xs (-1) = Inr (last xs)"
  by (cases xs) (simp_all add: py_get_def last_conv_nth nat_diff_distrib')

lemma py_get_last': "xs \<noteq> [] \<Longrightarrow> py_get xs (int (length xs) - 1) = Inr (last xs)"
  by (cases xs) (simp_all add: py_get_def last_conv_nth nat_diff_distrib')

lemma py_get_valid: "0 \<le> i \<Longrightarrow> i < int (length xs) \<Longrightarrow> py_get xs i = Inr (xs ! nat i)"
  by (simp add: py_get_def)

lemma in_py_range: "i \<in> set (py_range a b) \<Longrightarrow> a \<le> i \<and> i < b"
  by (auto simp: py_range_def)

lemma and_then_Inr: "and_then (Inr x) g = g x"
  by (simp add: and_then_def)

lemma finish_ignores_event: "finish m e ev f s = finish m e ev' f s"
  by (cases m) simp_all

lemma for_each_join_aux:
  "(\<And>i. i \<in> set js \<Longrightarrow> 0 \<le> i \<and> i < int (length xs)) \<Longrightarrow>
   for_each (\<lambda>i result. and_then (py_get xs i) (\<lambda>r. Inr (join_records result r))) js r0 =
     Inr (foldl join_records r0 (map (\<lambda>i. xs ! nat i) js))"
  by (induction js arbitrary: r0) (simp_all add: py_get_valid and_then_def)

lemma map_nth_py_range:
  "0 \<le> a \<Longrightarrow> map (\<lambda>i. xs ! nat i) (py_range a (int (length xs))) = drop (nat a) xs"
  by (rule nth_equalityI) (auto simp: py_range_def nat_add_distrib nat_diff_distrib')

lemma for_each_join:
  assumes "0 \<le> a"
  shows "for_each (\<lambda>i result. and_then (py_get xs i) (\<lambda>r. Inr (join_records result r)))
           (py_range a (int (length xs))) r0 = Inr (foldl join_records r0 (drop (nat a) xs))"
proof -
  have "for_each (\<lambda>i result. and_then (py_get xs i) (\<lambda>r. Inr (join_records result r)))
           (py_range a (int (length xs))) r0 =
        Inr (foldl join_records r0 (map (\<lambda>i. xs ! nat i) (py_range a (int (length xs)))))"
    using assms by (intro for_each_join_aux) (auto dest: in_py_range)
  then show ?thesis using assms by (simp add: map_nth_py_range)
qed

lemma trim_last_eq:
  assumes "chunks s \<noteq> []"
  shows "trim 1 s = Inr (trim_end (int (length (out s)) - 1) (trim_beg (last (chunks s)) s))"
proof -
  have r: "py_range (int (length (chunks s)) - 1) (int (length (chunks s))) = [int (length (chunks s)) - 1]"
    by (simp add: py_range_def)
  have c: "chunks (trim_beg c s) = chunks s" "length (out (trim_beg c s)) = length (out s)" for c
    by (simp_all add: trim_beg_def)
  show ?thesis
    unfolding trim_def r using assms
    by (simp add: trim_one_def py_get_last' and_then_def Let_def c)
qed

lemma collapseOne_last_eq:
  assumes "chunks s \<noteq> []" "0 \<le> last (chunks s)"
  shows "collapseOne (int (length (chunks s)) - 1) s =
     Inr (s\<lparr>out := (if nat (last (chunks s)) + 1 < length (out s)
                      then take (nat (last (chunks s))) (out s) @
                           [foldl join_records (out s ! nat (last (chunks s)))
                              (drop (nat (last (chunks s)) + 1) (out s))]
                      else out s)\<rparr>)"
proof (cases "int (length (out s)) - 1 \<le> last (chunks s)")
  case True
  with assms have "\<not> nat (last (chunks s)) + 1 < length (out s)" by linarith
  with True assms show ?thesis
    by (simp add: collapseOne_def py_get_last' and_then_def)
next
  case False
  let ?c = "last (chunks s)"
  from False assms have lt: "nat ?c + 1 < length (out s)" by linarith
  from False assms have v: "py_get (out s) ?c = Inr (out s ! nat ?c)"
    by (simp add: py_get_valid)
  have f: "for_each (\<lambda>i result. and_then (py_get (out s) i) (\<lambda>r. Inr (join_records result r)))
           (py_range (?c + 1) (int (length (out s)))) (out s ! nat ?c) =
           Inr (foldl join_records (out s ! nat ?c) (drop (nat (?c + 1)) (out s)))"
    using assms by (intro for_each_join) simp
  have n: "nat (?c + 1) = nat ?c + 1" using assms by simp
  have sp: "py_splice (out s) ?c (int (length (out s))) v = take (nat ?c) (out s) @ [v]" for v
    using False assms by (simp add: py_splice_def slice_bound_def Let_def max_def)
  from False assms v lt show ?thesis
    by (simp add: collapseOne_def py_get_last' and_then_Inr f [unfolded n] sp del: for_each.simps)
qed

lemma collapse_last_eq:
  assumes "level s \<noteq> []" "chunks s \<noteq> []" "0 \<le> last (chunks s)"
  shows "collapse 1 s =
     Inr (s\<lparr>out := (if last (level s) < int (length (chunks s)) \<and>
                        nat (last (chunks s)) + 1 < length (out s)
                      then take (nat (last (chunks s))) (out s) @
                           [foldl join_records (out s ! nat (last (chunks s)))
                              (drop (nat (last (chunks s)) + 1) (out s))]
                      else out s)\<rparr>)"
proof (cases "last (level s) < int (length (chunks s))")
  case True
  have r: "py_range 0 1 = [0]" "py_range 1 1 = []" by (simp_all add: py_range_def)
  from True assms show ?thesis
    by (simp add: collapse_def py_get_last and_then_def Let_def r collapseOne_last_eq)
next
  case False
  have r: "n \<le> 0 \<Longrightarrow> py_range 0 n = []" for n by (simp add: py_range_def)
  from False assms show ?thesis
    by (simp add: collapse_def py_get_last and_then_def Let_def)
qed

text \<open>
  Claim C9, as amended.  The close request never looks at its event: \<^verbatim>\<open>finish\<close> gives the
  same result for every event, so it closes whatever scope is innermost.  When
  \<^verbatim>\<open>\right\<close> is read while no scope at all is open (the scope stack has depth 1), the
  chunk list is not empty and its last entry is a buffer position (not negative), the
  close request returns the state unchanged and \<^verbatim>\<open>right\<close> raises nothing.  It changes
  the buffer only, and there only the last chunk: the first record of the chunk is
  stripped on the left and the last record of the buffer on the right (each when it is a
  record of height 0, a plain string), and the records of the chunk are joined into one.
  Scopes, remaining input and printed text stay as they were, so that the parsing loop
  goes on with the next token.
\<close>

theorem right_without_open_scope:
  "finish m e ev force s = finish m e (Ev ''LeftRight'') force s \<and>
   (length (level s) = 1 \<and> chunks s \<noteq> [] \<and> 0 \<le> last (chunks s) \<longrightarrow>
      finish (Suc n) e (Ev ''LeftRight'') True s = Inr s \<and>
      right (Suc n) e s =
        Inr (s\<lparr>out :=
          (let t = out (trim_end (int (length (out s)) - 1) (trim_beg (last (chunks s)) s));
               c = nat (last (chunks s))
           in if last (level s) < int (length (chunks s)) \<and> c + 1 < length t
              then take c t @ [foldl join_records (t ! c) (drop (c + 1) t)]
              else t)\<rparr>))"
proof (intro conjI impI)
  show "finish m e ev force s = finish m e (Ev ''LeftRight'') force s"
    by (rule finish_ignores_event)
next
  assume a: "length (level s) = 1 \<and> chunks s \<noteq> [] \<and> 0 \<le> last (chunks s)"
  then show f: "finish (Suc n) e (Ev ''LeftRight'') True s = Inr s" by simp
  define s1 where "s1 = trim_end (int (length (out s)) - 1) (trim_beg (last (chunks s)) s)"
  have k: "level s1 = level s" "chunks s1 = chunks s" "s1\<lparr>out := x\<rparr> = s\<lparr>out := x\<rparr>" for x
    by (simp_all add: s1_def trim_end_def trim_beg_def)
  from a have t: "trim 1 s = Inr s1" by (simp add: trim_last_eq s1_def)
  from a have "level s1 \<noteq> []" "chunks s1 \<noteq> []" "0 \<le> last (chunks s1)"
    by (auto simp: k)
  from collapse_last_eq [OF this] f t
  show "right (Suc n) e s =
        Inr (s\<lparr>out :=
          (let t = out (trim_end (int (length (out s)) - 1) (trim_beg (last (chunks s)) s));
               c = nat (last (chunks s))
           in if last (level s) < int (length (chunks s)) \<and> c + 1 < length t
              then take c t @ [foldl join_records (t ! c) (drop (c + 1) t)]
              else t)\<rparr>)"
    unfolding s1_def [symmetric] Let_def
    by (simp add: right_def and_then_def k del: finish.simps)
qed

lemma stray_right_trimmed:
  "out (trim_end (int (length (out stray_right_state)) - 1)
     (trim_beg (last (chunks stray_right_state)) stray_right_state)) =
   [indent_record, string2record (ustr ''x'') False]"
  by (simp add: stray_right_state_def trim_end_def trim_beg_def string2record_def ustr_def
      lstrip_def rstrip_def is_space_def indent_record_def)

theorem right_without_open_scope_witness:
  "length (level stray_right_state) = 1 \<and> chunks stray_right_state \<noteq> [] \<and>
   0 \<le> last (chunks stray_right_state) \<and>
   finish (Suc 0) null_env (Ev ''}'') True stray_right_state =
     finish (Suc 0) null_env (Ev ''LeftRight'') True stray_right_state \<and>
   finish (Suc 0) null_env (Ev ''LeftRight'') True stray_right_state = Inr stray_right_state \<and>
   right (Suc 0) null_env stray_right_state =
     Inr (stray_right_state\<lparr>out := [indent_record, string2record (ustr ''x'') False]\<rparr>)"
proof -
  have h: "length (level stray_right_state) = 1" "chunks stray_right_state \<noteq> []"
    "0 \<le> last (chunks stray_right_state)" "last (chunks stray_right_state) = 1"
    "last (level stray_right_state) = 0" "length (chunks stray_right_state) = 2"
    by (simp_all add: stray_right_state_def)
  from right_without_open_scope [of "Suc 0" null_env "Ev ''}''" True stray_right_state 0] h
  show ?thesis
    unfolding stray_right_trimmed Let_def
    by (simp del: finish.simps)
qed

text \<open>
  The close request does not look for a matching scope: inside a brace group, whose
  closing event is the brace, it closes the group.
\<close>

theorem right_closes_other_scope:
  "finish (Suc 0) null_env (Ev ''LeftRight'') True brace_state =
     Inr (brace_state\<lparr>level := [0], action := [[]], tokenByToken := [0], wait := [Ev []]\<rparr>) \<and>
   brace_state\<lparr>level := [0], action := [[]], tokenByToken := [0], wait := [Ev []]\<rparr> \<noteq> brace_state \<and>
   wait brace_state = [Ev [], Ev ''}'']"
  by (simp add: brace_state_def and_then_def py_get_def py_pop_def py_upto_def slice_bound_def)

text \<open>
  After \<^verbatim>\<open>noindent()\<close> has popped the only chunk, \<^verbatim>\<open>right\<close> indexes the empty chunk
  list.
\<close>

lemma right_raises_on_empty_chunks:
  "right (Suc n) e (initial_state\<lparr>chunks := []\<rparr>) = Inl IndexError"
  by (simp add: right_def initial_state_def trim_def trim_one_def py_range_def py_get_def and_then_def)

section \<open>The fraction scenario\<close>

lemma py_range_simps:
  "py_range 0 2 = [0, 1]" "py_range 1 2 = [1]" "py_range 1 3 = [1, 2]" "py_range 0 1 = [0]"
  "py_range 1 1 = []" "py_range 2 3 = [2]"
  by (simp_all add: py_range_def upt_rec)












lemma fraction_state_reached:
  assumes "5 \<le> linelength e"
  shows
  "and_then (commit (Suc k) e indent_record initial_state) (\<lambda>s.
   and_then (dispatch_subN 2 ''f_fraction'' s) (\<lambda>s.
   and_then (open_curly s) (\<lambda>s.
   and_then (puts (Suc k) e (ustr ''a+b'') False s) (\<lambda>s.
   and_then (close_curly (Suc k) e s) (\<lambda>s.
   and_then (open_curly s) (\<lambda>s.
   and_then (puts (Suc k) e (ustr ''c'') False s) (\<lambda>s.
     close_curly (Suc k) e s))))))) = callsub e ''f_fraction'' fraction_state"
proof -
  have 1: "commit (Suc k) e indent_record initial_state =
      Inr (initial_state\<lparr>out := [indent_record], curlength := 5\<rparr>)"
    using assms
    by (simp add: initial_state_def indent_record_def get_length_def and_then_def py_get_def)
  have 2: "dispatch_subN 2 ''f_fraction'' (initial_state\<lparr>out := [indent_record], curlength := 5\<rparr>) =
      Inr (initial_state\<lparr>out := [indent_record], curlength := 5, chunks := [0, 1],
             level := [0, 1], tokenByToken := [0, 1], wait := [Ev [], Count 2],
             action := [[], ''f_fraction'']\<rparr>)"
    by (simp add: dispatch_subN_def start_def initial_state_def and_then_def py_get_def py_set_def)
  let ?s2 = "initial_state\<lparr>out := [indent_record], curlength := 5, chunks := [0, 1],
             level := [0, 1], tokenByToken := [0, 1], wait := [Ev [], Count 2],
             action := [[], ''f_fraction'']\<rparr>"
  have 3: "open_curly ?s2 = Inr (?s2\<lparr>level := [0, 1, 1], tokenByToken := [0, 1, 0],
             wait := [Ev [], Count 2, Ev ''}''], action := [[], ''f_fraction'', []]\<rparr>)"
    by (simp add: open_curly_def start_def initial_state_def and_then_def py_get_def)
  let ?s3 = "?s2\<lparr>level := [0, 1, 1], tokenByToken := [0, 1, 0],
             wait := [Ev [], Count 2, Ev ''}''], action := [[], ''f_fraction'', []]\<rparr>"
  have 4: "puts (Suc k) e (ustr ''a+b'') False ?s3 =
      Inr (?s3\<lparr>out := [indent_record, string2record (ustr ''a+b'') False]\<rparr>)"
    by (simp add: puts_def initial_state_def and_then_def py_get_def)
  let ?s4 = "?s3\<lparr>out := [indent_record, string2record (ustr ''a+b'') False]\<rparr>"
  have 5: "close_curly (Suc k) e ?s4 = Inr (?s4\<lparr>level := [0, 1], tokenByToken := [0, 1],
             wait := [Ev [], Count 2], action := [[], ''f_fraction'']\<rparr>)"
    by (simp add: close_curly_def initial_state_def and_then_def py_get_def py_pop_def
        py_upto_def slice_bound_def)
  let ?s5 = "?s4\<lparr>level := [0, 1], tokenByToken := [0, 1],
             wait := [Ev [], Count 2], action := [[], ''f_fraction'']\<rparr>"
  have 6: "open_curly ?s5 = Inr (?s5\<lparr>chunks := [0, 1, 2], level := [0, 1, 2],
             tokenByToken := [0, 1, 0],
             wait := [Ev [], Count 2, Ev ''}''], action := [[], ''f_fraction'', []]\<rparr>)"
    by (simp add: open_curly_def start_def initial_state_def and_then_def py_get_def)
  let ?s6 = "?s5\<lparr>chunks := [0, 1, 2], level := [0, 1, 2],
             tokenByToken := [0, 1, 0],
             wait := [Ev [], Count 2, Ev ''}''], action := [[], ''f_fraction'', []]\<rparr>"
  have 7: "puts (Suc k) e (ustr ''c'') False ?s6 =
      Inr (?s6\<lparr>out := [indent_record, string2record (ustr ''a+b'') False,
                       string2record (ustr ''c'') False]\<rparr>)"
    by (simp add: puts_def initial_state_def and_then_def py_get_def)
  let ?s7 = "?s6\<lparr>out := [indent_record, string2record (ustr ''a+b'') False,
                       string2record (ustr ''c'') False]\<rparr>"
  have 8: "close_curly (Suc k) e ?s7 = callsub e ''f_fraction'' fraction_state"
    by (simp add: close_curly_def initial_state_def and_then_def py_get_def py_pop_def
        py_upto_def slice_bound_def fraction_state_def)
  show ?thesis
    by (simp only: 1 2 3 4 5 6 7 8 and_then_def sum.case)
qed

section \<open>Properties of the justification\<close>

lemma sub_spaces_no_remainder:
  "sub_spaces fr re_val s (c1, 0) =
     (concat (map (\<lambda>c. if c = SP then spaces_of (fr + 1) else [c]) s),
      c1 + int (count_list s SP), 0)"
  by (induction s arbitrary: c1) (simp_all add: exp_sp_def Let_def)

lemma length_sub_spaces:
  "0 \<le> fr \<Longrightarrow>
   int (length (fst (sub_spaces fr re_val s (c1, 0)))) = int (length s) + fr * int (count_list s SP)"
  unfolding sub_spaces_no_remainder
  by (induction s) (simp_all add: spaces_of_def algebra_simps)

lemma flush_line: "out flush_state = [\<lparr>height = 0, len = 6, baseline = 0, spaces = 0,
    content = [97, SP, 98, SP, 99, SP]\<rparr>]"
  by (simp add: flush_state_def cut_def string2record_def ustr_def Let_def)

lemma flush_expanded:
  "sub_spaces 1 1 [97, SP, 98, SP, 99, SP] (0, 0) = ([97, SP, SP, 98, SP, SP, 99, SP, SP], 3, 0)"
  by (subst sub_spaces_no_remainder) (simp add: spaces_of_def numeral_2_eq_2)

lemma flush_justified:
  "justify 10 False 6 0 (out flush_state) =
     Inr [string2record [97, SP, SP, 98, SP, SP, 99, SP, SP] False]"
  unfolding flush_line
  by (simp add: justify_def count_expandable_def expand_records_def exp_sp_maker_def
      py_range_simps py_get_def py_set_def and_then_def flush_expanded Let_def
      del: sub_spaces.simps)

text \<open>
  Claim C1.  Justification is to insert exactly the missing width.  The counter \<^verbatim>\<open>c2\<close> of
  \<^verbatim>\<open>exp_sp\<close> starts at 0 and is only ever set to 0, so no space receives the extra
  column of the remainder: the line \<^verbatim>\<open>"a b c "\<close> of width 6, flushed at line width 10
  with three expandable spaces, becomes 9 wide, not 10.
\<close>

theorem justification_loses_remainder:
  "and_then (justify 10 False 6 0 (out flush_state)) (\<lambda>outb. Inr (map len outb)) = Inr [9]"
  by (simp add: flush_justified and_then_def string2record_def)

lemma flush_printed:
  "and_then (do_print 10 False False flush_state) (\<lambda>s. Inr (stdout s, out s)) =
     Inr ([[97, SP, SP, 98, SP, SP, 99]], [])"
proof -
  have j: "justify 10 False 6 0 [\<lparr>height = 0, len = 6, baseline = 0, spaces = 0,
      content = [97, SP, 98, SP, 99, SP]\<rparr>] =
      Inr [string2record [97, SP, SP, 98, SP, SP, 99, SP, SP] False]"
    using flush_justified unfolding flush_line .
  have p: "printrecord (string2record [97, SP, SP, 98, SP, SP, 99, SP, SP] False) =
      Some [97, SP, SP, 98, SP, SP, 99]"
    by (simp add: printrecord_def string2record_def rstrip_def lstrip_def is_space_def Let_def)
  have s: "flush_state = \<lparr>level = [0], chunks = [0], tokenByToken = [0],
     out = [\<lparr>height = 0, len = 6, baseline = 0, spaces = 0, content = [97, SP, 98, SP, 99, SP]\<rparr>],
     wait = [Ev []], action = [[]], curlength = 6, par = [], stdout = []\<rparr>"
    using flush_line by (simp add: flush_state_def)
  show ?thesis
    unfolding s do_print_def
    by (simp add: py_range_simps py_get_def and_then_def get_length_def j p Let_def)
qed

section \<open>Properties of the macro expansion\<close>
















end
